theory Spec2Isabelle
  imports Main
begin

section \<open>The application controller of src/app.js\<close>

text \<open>
  The class \<open>Application\<close> of \<open>src/app.js\<close> is embedded with explicit state passing.
  Its fields, the parts of the hosting environment it reads and writes
  (\<open>document.body\<close>, \<open>document.hidden\<close>, \<open>window.location.pathname\<close>, the registered
  event listeners) and the calls it makes into its collaborators (\<open>ui\<close>, \<open>auth\<close>,
  \<open>console\<close>) are one record; a call into a collaborator is appended to a log of
  effects, in program order.
\<close>

subsection \<open>JavaScript strings and arrays\<close>

text \<open>\<open>String.prototype.startsWith\<close>.\<close>

definition startsWith :: "string \<Rightarrow> string \<Rightarrow> bool" where
  "startsWith s p = (take (length p) s = p)"

text \<open>\<open>String.prototype.includes\<close>: the needle occurs at some position.\<close>

fun str_includes :: "string \<Rightarrow> string \<Rightarrow> bool" where
  "str_includes [] needle = (needle = [])"
| "str_includes (c # cs) needle = (startsWith (c # cs) needle \<or> str_includes cs needle)"

text \<open>\<open>String.prototype.split\<close> with a one-character separator: \<open>''/group/''\<close> gives
  \<open>['''', ''group'', '''']\<close>, the empty string gives \<open>['''']\<close>.\<close>

fun split_on :: "char \<Rightarrow> string \<Rightarrow> string list" where
  "split_on sep [] = [[]]"
| "split_on sep (c # cs) =
     (if c = sep then [] # split_on sep cs
      else (case split_on sep cs of
              [] \<Rightarrow> [[c]]
            | w # ws \<Rightarrow> (c # w) # ws))"

text \<open>Reading an array by index: \<open>undefined\<close> (here \<open>None\<close>) out of range.\<close>

definition index_opt :: "'a list \<Rightarrow> nat \<Rightarrow> 'a option" where
  "index_opt xs i = (if i < length xs then Some (xs ! i) else None)"

text \<open>\<open>Array.prototype.join\<close>.\<close>

fun array_join :: "string \<Rightarrow> string list \<Rightarrow> string" where
  "array_join sep [] = []"
| "array_join sep [x] = x"
| "array_join sep (x # y # ys) = x @ sep @ array_join sep (y # ys)"

subsection \<open>Data\<close>

text \<open>The user object of an auth notification: the code reads \<open>user.id\<close> and \<open>user.name\<close>.\<close>

record UserRef =
  user_id :: string
  user_name :: string

text \<open>The argument of \<open>handleAuthStateChange\<close>; \<open>user\<close> is \<open>null\<close> or an object.\<close>

record AuthSnapshot =
  isAuthenticated :: bool
  user :: "UserRef option"

text \<open>An \<open>Error\<close> object as the global error handler reads it: \<open>stack\<close> may be absent.\<close>

record JsError =
  stack :: "string option"

text \<open>A thrown value.\<close>

datatype exn = Exn string

text \<open>\<open>document.body\<close>: \<open>null\<close> while the parser has not reached the body (a script that
  runs from the head), else what its \<open>innerHTML\<close> holds: the page as loaded, or one of
  the two full-screen replacements the controller writes (the first carries the message
  interpolated into the template).\<close>

datatype document_body =
    NoBody
  | AppPage
  | CompatibilityWarning string
  | CriticalErrorScreen

text \<open>JavaScript values, as far as the controller reads them from a collaborator: a
  property of an object holds a value or has a getter that throws.\<close>

datatype jsval =
    JUndefined
  | JNull
  | JBool bool
  | JNum int
  | JStr string
  | JObj "(string \<times> (exn + jsval)) list"

text \<open>Calls into the collaborators and the environment, as logged.
  \<open>TrackedEvent\<close>, \<open>TrackedError\<close> and \<open>TrackedPerformance\<close> are the console lines
  written by \<open>trackEvent\<close>, \<open>trackError\<close> and \<open>trackPerformance\<close>.\<close>

datatype effect =
    ConsoleLog string
  | ConsoleWarn string
  | ConsoleError string
  | TrackedEvent string "(string \<times> string) list"
  | TrackedError string
  | TrackedPerformance string nat
  | ShowToast string string "nat option"
  | AnnounceToScreenReader string
  | StartChatPolling string
  | StopChatPolling
  | UiCleanup
  | PreventDefault
  | PerformanceMark string
  | PerformanceMeasure string
  | SetInterval nat
  | SetTimeout nat effect
  | ScrollIntoView
  | FocusElement string
  | InsertSkipLink

text \<open>The closures the controller registers with \<open>addEventListener\<close>, one per
  registration site.\<close>

datatype handler =
    OnUnhandledRejection
  | OnError
  | OnApiError
  | OnOnline
  | OnOffline
  | OnVisibilityChange
  | OnBeforeUnload
  | OnFocusIn
  | OnLoad
  | OnKeydown
  | OnRouterNavigate
  | OnUiModal
  | OnDOMContentLoaded

record app =
  isInitialized :: bool
  currentUser :: "UserRef option"
  listeners :: "handler list"
  authListeners :: nat
  body :: document_body
  hidden :: bool
  pathname :: string
  authIsAuthenticated :: bool
  effects :: "effect list"

text \<open>The methods called inside the \<open>try\<close> blocks of \<open>init\<close> and \<open>startApplication\<close>.\<close>

datatype callee =
    SetupGlobalErrorHandling
  | SetupApplicationEvents
  | SetupPerformanceMonitoring
  | SetupAccessibility
  | InitializeModules

text \<open>What the hosting environment decides: what reading \<open>window[feature]\<close> gives, an
  exception of the property's getter (\<open>window.localStorage\<close> throws a \<open>SecurityError\<close>
  where storage is blocked) or the truthiness of the value; whether
  \<open>document.readyState\<close> is \<open>'loading'\<close>; which of the methods above raises (an exception
  of a browser or collaborator call inside it, taken to be raised before the method's
  own effects); and the performance API.\<close>

record env =
  window_prop :: "string \<Rightarrow> exn + bool"
  readyState_loading :: bool
  raises :: "callee \<Rightarrow> exn option"
  performance_measure :: bool
  performance_memory :: bool
  hostname :: string

definition emit :: "effect \<Rightarrow> app \<Rightarrow> app" where
  "emit e s = s\<lparr>effects := effects s @ [e]\<rparr>"

text \<open>\<open>addEventListener\<close>, for the closures of one method in the order of the source.
  Every call passes a fresh closure, so a second registration adds a second listener.\<close>

definition addEventListeners :: "handler list \<Rightarrow> app \<Rightarrow> app" where
  "addEventListeners hs s = s\<lparr>listeners := listeners s @ hs\<rparr>"

text \<open>Sequencing of statements that may throw: the first exception ends the sequence
  and keeps the state reached.\<close>

fun run_steps :: "(app \<Rightarrow> exn option \<times> app) list \<Rightarrow> app \<Rightarrow> exn option \<times> app" where
  "run_steps [] s = (None, s)"
| "run_steps (f # fs) s =
     (case f s of
        (Some e, s') \<Rightarrow> (Some e, s')
      | (None, s') \<Rightarrow> run_steps fs s')"

text \<open>\<open>try { body } catch (error) { handler(error) }\<close>.\<close>

definition try_catch ::
  "(app \<Rightarrow> exn option \<times> app) \<Rightarrow> (exn \<Rightarrow> app \<Rightarrow> exn option \<times> app) \<Rightarrow> app \<Rightarrow> exn option \<times> app" where
  "try_catch body_fn catch_fn s =
     (case body_fn s of
        (Some e, s') \<Rightarrow> catch_fn e s'
      | (None, s') \<Rightarrow> (None, s'))"

text \<open>A statement that cannot throw.\<close>

definition pure_step :: "(app \<Rightarrow> app) \<Rightarrow> app \<Rightarrow> exn option \<times> app" where
  "pure_step f s = (None, f s)"

text \<open>A method that the environment may make throw.\<close>

definition guarded :: "env \<Rightarrow> callee \<Rightarrow> (app \<Rightarrow> app) \<Rightarrow> app \<Rightarrow> exn option \<times> app" where
  "guarded ev m f s = (case raises ev m of Some e \<Rightarrow> (Some e, s) | None \<Rightarrow> (None, f s))"

subsection \<open>Messages\<close>

text \<open>The texts of the source; a character outside ASCII is written by its code point.\<close>

definition msg_unexpected :: string where
  "msg_unexpected = ''Ocorreu um erro inesperado. Tente novamente.''"

definition msg_critical :: string where
  "msg_critical = ''Erro cr'' @ [CHR 0xED] @ ''tico da aplica'' @ [CHR 0xE7, CHR 0xE3]
     @ ''o. Recarregue a p'' @ [CHR 0xE1] @ ''gina.''"

definition msg_server :: string where
  "msg_server = ''Problema no servidor. Tente novamente em alguns minutos.''"

definition msg_online :: string where
  "msg_online = ''Conex'' @ [CHR 0xE3] @ ''o restabelecida!''"

definition msg_offline :: string where
  "msg_offline = ''Sem conex'' @ [CHR 0xE3] @ ''o com a internet''"

definition msg_incompatible :: "string list \<Rightarrow> string" where
  "msg_incompatible unsupported =
     ''Seu navegador n'' @ [CHR 0xE3] @ ''o suporta alguns recursos necess'' @ [CHR 0xE1]
     @ ''rios: '' @ array_join '', '' unsupported
     @ ''. Por favor, atualize seu navegador.''"

subsection \<open>Tracking\<close>

definition trackEvent :: "string \<Rightarrow> (string \<times> string) list \<Rightarrow> app \<Rightarrow> app" where
  "trackEvent eventName properties s = emit (TrackedEvent eventName properties) s"

definition trackError :: "string \<Rightarrow> app \<Rightarrow> app" where
  "trackError errorType s = emit (TrackedError errorType) s"

definition trackPerformance :: "string \<Rightarrow> nat \<Rightarrow> app \<Rightarrow> app" where
  "trackPerformance metricName v s = emit (TrackedPerformance metricName v) s"

subsection \<open>Browser compatibility\<close>

definition requiredFeatures :: "string list" where
  "requiredFeatures =
     [''fetch'', ''localStorage'', ''addEventListener'', ''querySelector'', ''classList'',
      ''Promise'', ''CustomEvent'']"

text \<open>\<open>!window[name]\<close>: the negated truthiness, or the exception of the getter.\<close>

definition not_window :: "env \<Rightarrow> string \<Rightarrow> exn + bool" where
  "not_window ev name =
     (case window_prop ev name of
        Inl e \<Rightarrow> Inl e
      | Inr truthy \<Rightarrow> Inr (\<not> truthy))"

text \<open>The callback of \<open>requiredFeatures.filter\<close>.\<close>

definition unsupported :: "env \<Rightarrow> string \<Rightarrow> exn + bool" where
  "unsupported ev feature =
     (if feature = ''fetch'' then not_window ev ''fetch''
      else if feature = ''localStorage'' then not_window ev ''localStorage''
      else if feature = ''Promise'' then not_window ev ''Promise''
      else if feature = ''CustomEvent'' then not_window ev ''CustomEvent''
      else not_window ev feature)"

text \<open>\<open>Array.prototype.filter\<close> with a callback that may throw: the elements are tested
  in order and the first exception ends the call.\<close>

fun array_filter :: "('a \<Rightarrow> exn + bool) \<Rightarrow> 'a list \<Rightarrow> exn + 'a list" where
  "array_filter callback [] = Inr []"
| "array_filter callback (x # xs) =
     (case callback x of
        Inl e \<Rightarrow> Inl e
      | Inr keep \<Rightarrow>
          (case array_filter callback xs of
             Inl e \<Rightarrow> Inl e
           | Inr kept \<Rightarrow> Inr (if keep then x # kept else kept)))"

definition unsupportedFeatures :: "env \<Rightarrow> exn + string list" where
  "unsupportedFeatures ev = array_filter (unsupported ev) requiredFeatures"

text \<open>The assignment to \<open>document.body.innerHTML\<close> throws a \<open>TypeError\<close> while
  \<open>document.body\<close> is \<open>null\<close>.\<close>

definition showBrowserCompatibilityWarning :: "string \<Rightarrow> app \<Rightarrow> exn option \<times> app" where
  "showBrowserCompatibilityWarning message s =
     (if body s = NoBody then (Some (Exn ''TypeError''), s)
      else (None, s\<lparr>body := CompatibilityWarning message\<rparr>))"

text \<open>The result is the returned boolean, or the exception that leaves the method.\<close>

definition checkBrowserCompatibility :: "env \<Rightarrow> app \<Rightarrow> (exn + bool) \<times> app" where
  "checkBrowserCompatibility ev s =
     (case unsupportedFeatures ev of
        Inl e \<Rightarrow> (Inl e, s)
      | Inr missing \<Rightarrow>
          if length missing > 0 then
            (case showBrowserCompatibilityWarning (msg_incompatible missing) s of
               (Some e, s') \<Rightarrow> (Inl e, s')
             | (None, s') \<Rightarrow> (Inr False, s'))
          else (Inr True, s))"

subsection \<open>Critical errors\<close>

text \<open>\<open>handleCriticalError\<close> logs, then assigns to \<open>document.body.innerHTML\<close>, which throws
  while \<open>document.body\<close> is \<open>null\<close>, then tracks the error.\<close>

definition handleCriticalError :: "exn \<Rightarrow> app \<Rightarrow> exn option \<times> app" where
  "handleCriticalError error s =
     (let s1 = emit (ConsoleError ''Critical application error:'') s in
      if body s1 = NoBody then (Some (Exn ''TypeError''), s1)
      else (None, trackError ''critical_error'' (s1\<lparr>body := CriticalErrorScreen\<rparr>)))"

subsection \<open>Authentication state\<close>

text \<open>\<open>updateGlobalUserInfo\<close> has an empty body in the source.\<close>

definition updateGlobalUserInfo :: "UserRef \<Rightarrow> app \<Rightarrow> app" where
  "updateGlobalUserInfo u s = s"

definition onUserLogin :: "UserRef \<Rightarrow> app \<Rightarrow> app" where
  "onUserLogin u s =
     updateGlobalUserInfo u
       (trackEvent ''user_login'' [(''user_id'', user_id u)]
          (emit (ConsoleLog (''User logged in: '' @ user_name u)) s))"

definition cleanupUserData :: "app \<Rightarrow> app" where
  "cleanupUserData s = emit StopChatPolling s"

definition onUserLogout :: "app \<Rightarrow> app" where
  "onUserLogout s = cleanupUserData (trackEvent ''user_logout'' [] (emit (ConsoleLog ''User logged out'') s))"

text \<open>The assignment to \<open>this.currentUser\<close> comes first, so the test of the second
  branch reads the user of the incoming notification.\<close>

definition handleAuthStateChange :: "AuthSnapshot \<Rightarrow> app \<Rightarrow> app" where
  "handleAuthStateChange authState s =
     (let s1 = s\<lparr>currentUser := user authState\<rparr> in
      case user authState of
        Some u \<Rightarrow>
          if isAuthenticated authState then onUserLogin u s1
          else if \<not> isAuthenticated authState \<and> currentUser s1 \<noteq> None then onUserLogout s1
          else s1
      | None \<Rightarrow>
          if \<not> isAuthenticated authState \<and> currentUser s1 \<noteq> None then onUserLogout s1
          else s1)"

subsection \<open>Background tasks\<close>

definition pauseBackgroundTasks :: "app \<Rightarrow> app" where
  "pauseBackgroundTasks s = emit StopChatPolling s"

text \<open>\<open>groupId\<close> is \<open>currentPath.split('/')[2]\<close>; the empty string and \<open>undefined\<close> are
  falsy.\<close>

definition resumeBackgroundTasks :: "app \<Rightarrow> app" where
  "resumeBackgroundTasks s =
     (let currentPath = pathname s in
      if startsWith currentPath ''/group/'' then
        (case index_opt (split_on CHR ''/'' currentPath) 2 of
           Some groupId \<Rightarrow> if groupId \<noteq> [] then emit (StartChatPolling groupId) s else s
         | None \<Rightarrow> s)
      else s)"

subsection \<open>Health check and cleanup\<close>

text \<open>Reading a property: of \<open>null\<close> and \<open>undefined\<close> it throws a \<open>TypeError\<close>; of an
  object it gives the property's value or the exception of its getter, and \<open>undefined\<close>
  where the object has no such property; of any other value it gives \<open>undefined\<close>.\<close>

definition get_prop :: "jsval \<Rightarrow> string \<Rightarrow> exn + jsval" where
  "get_prop v name =
     (case v of
        JUndefined \<Rightarrow> Inl (Exn ''TypeError'')
      | JNull \<Rightarrow> Inl (Exn ''TypeError'')
      | JObj props \<Rightarrow> (case map_of props name of None \<Rightarrow> Inr JUndefined | Some r \<Rightarrow> r)
      | _ \<Rightarrow> Inr JUndefined)"

text \<open>The API collaborator's \<open>healthCheck()\<close> either throws (or rejects), or resolves to
  some value.\<close>

datatype api_outcome = ApiThrows exn | ApiResolves jsval

text \<open>The \<open>try\<close> block: the awaited call, then \<open>response.ok\<close>, returned as it is.\<close>

definition healthCheck_try :: "api_outcome \<Rightarrow> exn + jsval" where
  "healthCheck_try outcome =
     (case outcome of
        ApiThrows e \<Rightarrow> Inl e
      | ApiResolves response \<Rightarrow> get_prop response ''ok'')"

definition healthCheck :: "api_outcome \<Rightarrow> app \<Rightarrow> (exn + jsval) \<times> app" where
  "healthCheck outcome s =
     (case healthCheck_try outcome of
        Inl e \<Rightarrow> (Inr (JBool False), emit (ConsoleError ''Health check failed:'') s)
      | Inr v \<Rightarrow> (Inr v, s))"

definition cleanup :: "app \<Rightarrow> app" where
  "cleanup s =
     (emit UiCleanup (emit (ConsoleLog ''Cleaning up application...'') s))\<lparr>isInitialized := False\<rparr>"

subsection \<open>Startup\<close>

text \<open>\<open>auth.addListener\<close> with a fresh closure that calls \<open>handleAuthStateChange\<close>.\<close>

definition initializeModules :: "env \<Rightarrow> app \<Rightarrow> exn option \<times> app" where
  "initializeModules ev =
     guarded ev InitializeModules (\<lambda>s. s\<lparr>authListeners := Suc (authListeners s)\<rparr>)"

text \<open>\<open>startApplication\<close> is an \<open>async\<close> method; it awaits only \<open>initializeModules\<close>, whose
  promise is settled when it returns, so the rest of the body runs before any later
  event is dispatched and the method is one step here. An exception in the result is
  one that leaves the \<open>catch\<close> block: the promise of the method rejects.\<close>

definition startApplication :: "env \<Rightarrow> app \<Rightarrow> exn option \<times> app" where
  "startApplication ev =
     try_catch
       (\<lambda>s0.
          let s1 = emit (ConsoleLog ''EduConnect: Starting application...'') s0 in
          case checkBrowserCompatibility ev s1 of
            (Inl e, s2) \<Rightarrow> (Some e, s2)
          | (Inr compatible, s2) \<Rightarrow>
              if \<not> compatible then (None, s2)
              else run_steps
                     [initializeModules ev,
                      pure_step (\<lambda>s. s\<lparr>isInitialized := True\<rparr>),
                      pure_step (emit (ConsoleLog ''EduConnect: Application ready!'')),
                      pure_step (trackEvent ''app_initialized'' [])] s2)
       (\<lambda>error s.
          handleCriticalError error (emit (ConsoleError ''Application startup failed:'') s))"

definition setupGlobalErrorHandling :: "env \<Rightarrow> app \<Rightarrow> exn option \<times> app" where
  "setupGlobalErrorHandling ev =
     guarded ev SetupGlobalErrorHandling
       (addEventListeners [OnUnhandledRejection, OnError, OnApiError])"

definition setupApplicationEvents :: "env \<Rightarrow> app \<Rightarrow> exn option \<times> app" where
  "setupApplicationEvents ev =
     guarded ev SetupApplicationEvents
       (addEventListeners [OnOnline, OnOffline, OnVisibilityChange, OnBeforeUnload, OnFocusIn])"

definition setupPerformanceMonitoring :: "env \<Rightarrow> app \<Rightarrow> exn option \<times> app" where
  "setupPerformanceMonitoring ev =
     guarded ev SetupPerformanceMonitoring
       (\<lambda>s.
          let s1 = (if performance_measure ev
                    then addEventListeners [OnLoad] (emit (PerformanceMark ''app-start'') s)
                    else s)
          in if performance_memory ev
                \<and> (hostname ev = ''localhost'' \<or> str_includes (hostname ev) ''replit'')
             then emit (SetInterval 30000) s1
             else s1)"

text \<open>\<open>document.body.insertBefore\<close> throws a \<open>TypeError\<close> while \<open>document.body\<close> is \<open>null\<close>.\<close>

definition addSkipLink :: "app \<Rightarrow> exn option \<times> app" where
  "addSkipLink s =
     (if body s = NoBody then (Some (Exn ''TypeError''), s)
      else (None, emit InsertSkipLink s))"

definition setupAccessibility :: "env \<Rightarrow> app \<Rightarrow> exn option \<times> app" where
  "setupAccessibility ev s =
     (case raises ev SetupAccessibility of
        Some e \<Rightarrow> (Some e, s)
      | None \<Rightarrow>
          run_steps
            [pure_step (addEventListeners [OnKeydown]),
             addSkipLink,
             pure_step (addEventListeners [OnRouterNavigate, OnUiModal])] s)"

text \<open>\<open>init\<close> does not await the promise of \<open>startApplication\<close>: a rejection of it would
  not reach the \<open>catch\<close> of \<open>init\<close>, so only the state is taken from it. An exception in
  the result of \<open>init\<close> is one that leaves its \<open>catch\<close> block: the promise of \<open>init\<close>
  rejects.\<close>

definition init :: "env \<Rightarrow> app \<Rightarrow> exn option \<times> app" where
  "init ev =
     try_catch
       (run_steps
          [pure_step (emit (ConsoleLog ''EduConnect: Initializing application...'')),
           setupGlobalErrorHandling ev,
           setupApplicationEvents ev,
           setupPerformanceMonitoring ev,
           setupAccessibility ev,
           (\<lambda>s. if readyState_loading ev
                then (None, addEventListeners [OnDOMContentLoaded] s)
                else (None, snd (startApplication ev s)))])
       (\<lambda>error s.
          handleCriticalError error (emit (ConsoleError ''Application initialization failed:'') s))"

text \<open>The constructor's assignments, on a freshly loaded page: visible, at the root
  path, nobody signed in, nothing registered or logged yet.\<close>

definition initial :: app where
  "initial =
     \<lparr>isInitialized = False, currentUser = None, listeners = [], authListeners = 0,
      body = AppPage, hidden = False, pathname = ''/'', authIsAuthenticated = False,
      effects = []\<rparr>"

subsection \<open>Event handlers\<close>

text \<open>The events of the environment and of the collaborators, with what the handlers read
  from them: the \<open>error\<close> of an error event, the \<open>status\<close> of an API error, the new value of
  \<open>document.hidden\<close>, whether the focused element has \<open>scrollIntoView\<close>, the duration
  measured at \<open>load\<close>, the key, \<open>shiftKey\<close>, whether the target is the body and whether
  \<open>main\<close> holds a focusable element, the new path, and a modal's action with whether an
  element marked \<open>data-modal-trigger\<close> exists.\<close>

datatype event =
    UnhandledRejection
  | ErrorEvent "JsError option"
  | ApiError int
  | Online
  | Offline
  | VisibilityChange bool
  | BeforeUnload
  | FocusIn bool
  | Load nat
  | Keydown string bool bool bool
  | RouterNavigate string
  | UiModal string bool
  | DOMContentLoaded
  | AuthNotify AuthSnapshot

definition on_unhandledrejection :: "app \<Rightarrow> app" where
  "on_unhandledrejection s =
     trackError ''unhandled_promise_rejection''
       (emit (ShowToast msg_unexpected ''error'' None)
          (emit PreventDefault (emit (ConsoleError ''Unhandled promise rejection:'') s)))"

text \<open>\<open>event.error && event.error.stack && event.error.stack.includes('app.js')\<close>; the
  empty stack is falsy and includes nothing.\<close>

definition from_app_js :: "JsError option \<Rightarrow> bool" where
  "from_app_js err =
     (case err of
        None \<Rightarrow> False
      | Some e \<Rightarrow> (case stack e of
                    None \<Rightarrow> False
                  | Some st \<Rightarrow> st \<noteq> [] \<and> str_includes st ''app.js''))"

definition on_error :: "JsError option \<Rightarrow> app \<Rightarrow> app" where
  "on_error err s =
     (let s1 = emit (ConsoleError ''Global error:'') s;
          s2 = (if from_app_js err then emit (ShowToast msg_critical ''error'' None) s1 else s1)
      in trackError ''javascript_error'' s2)"

definition on_api_error :: "int \<Rightarrow> app \<Rightarrow> app" where
  "on_api_error status s =
     (let s1 = emit (ConsoleWarn ''API Error:'') s in
      if status = 401 then s1
      else if status \<ge> 500 then emit (ShowToast msg_server ''error'' None) s1
      else s1)"

definition on_online :: "app \<Rightarrow> app" where
  "on_online s = trackEvent ''network_online'' [] (emit (ShowToast msg_online ''success'' None) s)"

definition on_offline :: "app \<Rightarrow> app" where
  "on_offline s =
     trackEvent ''network_offline'' [] (emit (ShowToast msg_offline ''warning'' (Some 10000)) s)"

definition on_visibilitychange :: "app \<Rightarrow> app" where
  "on_visibilitychange s = (if hidden s then pauseBackgroundTasks s else resumeBackgroundTasks s)"

definition on_focusin :: "bool \<Rightarrow> app \<Rightarrow> app" where
  "on_focusin scrollable s = (if scrollable then emit (SetTimeout 100 ScrollIntoView) s else s)"

definition on_load :: "nat \<Rightarrow> app \<Rightarrow> app" where
  "on_load duration s =
     trackPerformance ''app_init_time'' duration
       (emit (ConsoleLog ''Application initialization time'')
          (emit (PerformanceMeasure ''app-init-time'') (emit (PerformanceMark ''app-loaded'') s)))"

definition on_keydown :: "string \<Rightarrow> bool \<Rightarrow> bool \<Rightarrow> bool \<Rightarrow> app \<Rightarrow> app" where
  "on_keydown key shiftKey targetIsBody firstFocusable s =
     (if key = ''Tab'' \<and> \<not> shiftKey \<and> targetIsBody then
        (if firstFocusable then emit PreventDefault (emit (FocusElement ''main'') s) else s)
      else s)"

text \<open>\<open>pageNames[path] || fallback\<close>, for the four own keys of the object literal.\<close>

definition getPageNameFromPath :: "string \<Rightarrow> string" where
  "getPageNameFromPath path =
     (if startsWith path ''/group/'' then ''P'' @ [CHR 0xE1] @ ''gina do Grupo''
      else (case map_of [(''/'', ''In'' @ [CHR 0xED] @ ''cio''), (''/login'', ''Login''),
                         (''/register'', ''Criar Conta''), (''/dashboard'', ''Dashboard'')] path of
              Some pageName \<Rightarrow> pageName
            | None \<Rightarrow> ''P'' @ [CHR 0xE1] @ ''gina''))"

definition on_router_navigate :: "string \<Rightarrow> app \<Rightarrow> app" where
  "on_router_navigate path s =
     emit (SetTimeout 500 (AnnounceToScreenReader (''Navegou para '' @ getPageNameFromPath path))) s"

definition on_ui_modal :: "string \<Rightarrow> bool \<Rightarrow> app \<Rightarrow> app" where
  "on_ui_modal action lastFocused s =
     (if action = ''show'' then s
      else if action = ''hide'' then
        (if lastFocused then emit (FocusElement ''[data-modal-trigger]'') s else s)
      else s)"

text \<open>One listener receiving one event: a listener runs on the events of the type it
  was registered for.\<close>

definition run_handler :: "env \<Rightarrow> handler \<Rightarrow> event \<Rightarrow> app \<Rightarrow> app" where
  "run_handler ev h e s =
     (case (h, e) of
        (OnUnhandledRejection, UnhandledRejection) \<Rightarrow> on_unhandledrejection s
      | (OnError, ErrorEvent err) \<Rightarrow> on_error err s
      | (OnApiError, ApiError status) \<Rightarrow> on_api_error status s
      | (OnOnline, Online) \<Rightarrow> on_online s
      | (OnOffline, Offline) \<Rightarrow> on_offline s
      | (OnVisibilityChange, VisibilityChange nowHidden) \<Rightarrow> on_visibilitychange s
      | (OnBeforeUnload, BeforeUnload) \<Rightarrow> cleanup s
      | (OnFocusIn, FocusIn scrollable) \<Rightarrow> on_focusin scrollable s
      | (OnLoad, Load duration) \<Rightarrow> on_load duration s
      | (OnKeydown, Keydown key shiftKey targetIsBody firstFocusable) \<Rightarrow>
          on_keydown key shiftKey targetIsBody firstFocusable s
      | (OnRouterNavigate, RouterNavigate path) \<Rightarrow> on_router_navigate path s
      | (OnUiModal, UiModal action lastFocused) \<Rightarrow> on_ui_modal action lastFocused s
      | (OnDOMContentLoaded, DOMContentLoaded) \<Rightarrow> snd (startApplication ev s)
      | _ \<Rightarrow> s)"

text \<open>What the environment changes before it fires an event: \<open>document.hidden\<close> on a
  visibility change, \<open>window.location.pathname\<close> on a navigation, \<open>auth.isAuthenticated\<close>
  on an auth notification; and the document is parsed, so that \<open>document.body\<close> exists,
  when \<open>DOMContentLoaded\<close> fires.\<close>

definition environment_update :: "event \<Rightarrow> app \<Rightarrow> app" where
  "environment_update e s =
     (case e of
        VisibilityChange h \<Rightarrow> s\<lparr>hidden := h\<rparr>
      | RouterNavigate path \<Rightarrow> s\<lparr>pathname := path\<rparr>
      | AuthNotify a \<Rightarrow> s\<lparr>authIsAuthenticated := isAuthenticated a\<rparr>
      | DOMContentLoaded \<Rightarrow> (if body s = NoBody then s\<lparr>body := AppPage\<rparr> else s)
      | _ \<Rightarrow> s)"

text \<open>An event reaches every registered listener in registration order; an auth
  notification reaches every closure passed to \<open>auth.addListener\<close>.\<close>

definition dispatch :: "env \<Rightarrow> event \<Rightarrow> app \<Rightarrow> app" where
  "dispatch ev e s =
     (case e of
        AuthNotify a \<Rightarrow> (handleAuthStateChange a ^^ authListeners s) (environment_update e s)
      | _ \<Rightarrow> foldl (\<lambda>s' h. run_handler ev h e s') (environment_update e s) (listeners s))"

definition run_events :: "env \<Rightarrow> event list \<Rightarrow> app \<Rightarrow> app" where
  "run_events ev es s = foldl (\<lambda>s' e. dispatch ev e s') s es"

subsection \<open>Observations\<close>

text \<open>The user-facing notifications among the logged calls.\<close>

fun is_toast :: "effect \<Rightarrow> bool" where
  "is_toast (ShowToast message severity duration) = True"
| "is_toast other = False"

definition toasts :: "app \<Rightarrow> effect list" where
  "toasts s = filter is_toast (effects s)"

text \<open>The group id that \<open>resumeBackgroundTasks\<close> reads from a path, if it reads one.\<close>

definition group_id :: "string \<Rightarrow> string option" where
  "group_id path =
     (if startsWith path ''/group/'' then
        (case index_opt (split_on CHR ''/'' path) 2 of
           Some groupId \<Rightarrow> if groupId \<noteq> [] then Some groupId else None
         | None \<Rightarrow> None)
      else None)"

text \<open>Modelled from the spec: \<open>ui.startChatPolling\<close>, \<open>ui.stopChatPolling\<close> and \<open>ui.cleanup\<close>
  are methods of \<open>ui.js\<close>, which is not among the sources. The spec gives at most one
  active polling task, keyed by a group id: starting stops any previous task, stopping
  is idempotent, and \<open>cleanup\<close> stops all timers of the UI.\<close>

definition ui_polling_step :: "string option \<Rightarrow> effect \<Rightarrow> string option" where
  "ui_polling_step task e =
     (case e of
        StartChatPolling groupId \<Rightarrow> Some groupId
      | StopChatPolling \<Rightarrow> None
      | UiCleanup \<Rightarrow> None
      | _ \<Rightarrow> task)"

definition polling :: "app \<Rightarrow> string option" where
  "polling s = foldl ui_polling_step None (effects s)"

text \<open>An environment in which every property the gate reads from \<open>window\<close> is truthy,
  with a parsed document and no failing call.\<close>

definition good_env :: env where
  "good_env =
     \<lparr>window_prop = (\<lambda>feature. Inr True), readyState_loading = False, raises = (\<lambda>m. None),
      performance_measure = True, performance_memory = False, hostname = ''example.org''\<rparr>"

text \<open>The controller after its constructor has run in that environment.\<close>

definition ready :: app where
  "ready = snd (init good_env initial)"

text \<open>The three kinds of event the background task scheduler is specified over.\<close>

definition scheduler_event :: "event \<Rightarrow> bool" where
  "scheduler_event e =
     (case e of
        VisibilityChange nowHidden \<Rightarrow> True
      | RouterNavigate path \<Rightarrow> True
      | AuthNotify a \<Rightarrow> True
      | _ \<Rightarrow> False)"

text \<open>The scheduler property in the words of the spec: the task runs exactly when the
  tab is visible, the path is a group path and the user is authenticated.\<close>

definition spec_polling_invariant :: "app \<Rightarrow> bool" where
  "spec_polling_invariant s =
     ((polling s \<noteq> None) = (\<not> hidden s \<and> group_id (pathname s) \<noteq> None \<and> authIsAuthenticated s))"

text \<open>A visitor who is not signed in opens a group page, switches to another tab and
  comes back.\<close>

definition unauthenticated_group_visit :: app where
  "unauthenticated_group_visit =
     run_events good_env
       [RouterNavigate ''/group/7'', VisibilityChange True, VisibilityChange False] ready"

text \<open>Notifications handed to \<open>handleAuthStateChange\<close> one after the other.\<close>

definition deliver :: "AuthSnapshot list \<Rightarrow> app \<Rightarrow> app" where
  "deliver notifications s = foldl (\<lambda>s' a. handleAuthStateChange a s') s notifications"

text \<open>The login and logout side effects, recognised by their tracking events:
  \<open>onUserLogin\<close> tracks \<open>user_login\<close> and calls \<open>updateGlobalUserInfo\<close>, \<open>onUserLogout\<close>
  tracks \<open>user_logout\<close> and calls \<open>cleanupUserData\<close>.\<close>

fun is_login :: "effect \<Rightarrow> bool" where
  "is_login (TrackedEvent eventName properties) = (eventName = ''user_login'')"
| "is_login other = False"

fun is_logout :: "effect \<Rightarrow> bool" where
  "is_logout (TrackedEvent eventName properties) = (eventName = ''user_logout'')"
| "is_logout other = False"

definition login_count :: "app \<Rightarrow> nat" where
  "login_count s = length (filter is_login (effects s))"

definition logout_count :: "app \<Rightarrow> nat" where
  "logout_count s = length (filter is_logout (effects s))"

text \<open>The actual transitions of \<open>isAuthenticated\<close> along a sequence of notifications,
  from the value before the first one.\<close>

fun login_transitions :: "bool \<Rightarrow> AuthSnapshot list \<Rightarrow> nat" where
  "login_transitions previous [] = 0"
| "login_transitions previous (a # rest) =
     (if \<not> previous \<and> isAuthenticated a then 1 else 0) + login_transitions (isAuthenticated a) rest"

fun logout_transitions :: "bool \<Rightarrow> AuthSnapshot list \<Rightarrow> nat" where
  "logout_transitions previous [] = 0"
| "logout_transitions previous (a # rest) =
     (if previous \<and> \<not> isAuthenticated a then 1 else 0) + logout_transitions (isAuthenticated a) rest"

text \<open>The idempotence requirement in the words of the spec, for a controller that starts
  signed out.\<close>

definition spec_auth_idempotence :: "AuthSnapshot list \<Rightarrow> bool" where
  "spec_auth_idempotence notifications =
     (login_count (deliver notifications initial) \<le> login_transitions False notifications
      \<and> logout_count (deliver notifications initial) \<le> logout_transitions False notifications)"

text \<open>A notification of a signed-in user, and the notification of a sign-out.\<close>

definition alice :: UserRef where
  "alice = \<lparr>user_id = ''u1'', user_name = ''Alice''\<rparr>"

definition signed_in :: AuthSnapshot where
  "signed_in = \<lparr>isAuthenticated = True, user = Some alice\<rparr>"

definition signed_out :: AuthSnapshot where
  "signed_out = \<lparr>isAuthenticated = False, user = None\<rparr>"

text \<open>A signed-in user whose tab polls the chat of group 7.\<close>

definition polling_group_7 :: app where
  "polling_group_7 =
     run_events good_env
       [AuthNotify signed_in, RouterNavigate ''/group/7'', VisibilityChange True,
        VisibilityChange False] ready"

text \<open>That environment without \<open>window.fetch\<close>.\<close>

definition no_fetch_env :: env where
  "no_fetch_env = good_env\<lparr>window_prop := (\<lambda>feature. Inr (feature \<noteq> ''fetch''))\<rparr>"

text \<open>A browser that follows the DOM standard and has every required capability.
  \<open>querySelector\<close> is a method of documents and elements (the controller itself calls
  \<open>document.querySelector\<close>) and \<open>classList\<close> is a property of elements: neither is a
  property of \<open>window\<close>, so \<open>window.querySelector\<close> and \<open>window.classList\<close> are
  \<open>undefined\<close>.\<close>

definition standard_browser :: env where
  "standard_browser =
     good_env\<lparr>window_prop :=
        (\<lambda>feature. Inr (feature \<noteq> ''querySelector'' \<and> feature \<noteq> ''classList''))\<rparr>"

text \<open>The same browser without network fetch.\<close>

definition standard_browser_without_fetch :: env where
  "standard_browser_without_fetch =
     good_env\<lparr>window_prop :=
        (\<lambda>feature. Inr (feature \<noteq> ''fetch'' \<and> feature \<noteq> ''querySelector''
                        \<and> feature \<noteq> ''classList''))\<rparr>"

text \<open>An environment in which reading \<open>window.localStorage\<close> throws.\<close>

definition blocked_storage_env :: env where
  "blocked_storage_env =
     good_env\<lparr>window_prop :=
        (\<lambda>feature. if feature = ''localStorage'' then Inl (Exn ''SecurityError'') else Inr True)\<rparr>"

text \<open>The features the gate names when its tests do not throw.\<close>

definition reported_missing :: "env \<Rightarrow> string list" where
  "reported_missing ev = (case unsupportedFeatures ev of Inl e \<Rightarrow> [] | Inr missing \<Rightarrow> missing)"

text \<open>A test of the gate throws.\<close>

definition gate_raises :: "env \<Rightarrow> bool" where
  "gate_raises ev = isl (unsupportedFeatures ev)"

text \<open>The controller constructed by a script that runs before the body is parsed.\<close>

definition in_head :: app where
  "in_head = initial\<lparr>body := NoBody\<rparr>"

text \<open>The statements of \<open>init\<close> before its last one.\<close>

definition setup_phase :: "env \<Rightarrow> app \<Rightarrow> exn option \<times> app" where
  "setup_phase ev =
     run_steps
       [pure_step (emit (ConsoleLog ''EduConnect: Initializing application...'')),
        setupGlobalErrorHandling ev,
        setupApplicationEvents ev,
        setupPerformanceMonitoring ev,
        setupAccessibility ev]"

text \<open>The listeners that one call of \<open>init\<close> registers when no setup method raises.\<close>

definition init_listeners :: "env \<Rightarrow> handler list" where
  "init_listeners ev =
     [OnUnhandledRejection, OnError, OnApiError, OnOnline, OnOffline, OnVisibilityChange,
      OnBeforeUnload, OnFocusIn]
     @ (if performance_measure ev then [OnLoad] else [])
     @ [OnKeydown, OnRouterNavigate, OnUiModal]
     @ (if readyState_loading ev then [OnDOMContentLoaded] else [])"

text \<open>A value of type boolean, and a result that is one.\<close>

definition is_boolean :: "jsval \<Rightarrow> bool" where
  "is_boolean v = (case v of JBool b \<Rightarrow> True | _ \<Rightarrow> False)"

definition returns_boolean :: "exn + jsval \<Rightarrow> bool" where
  "returns_boolean r = (case r of Inl e \<Rightarrow> False | Inr v \<Rightarrow> is_boolean v)"

text \<open>An API client whose \<open>healthCheck()\<close> resolves to the parsed body of the health
  endpoint, an object without a property \<open>ok\<close>.\<close>

definition health_body :: api_outcome where
  "health_body = ApiResolves (JObj [(''status'', Inr (JStr ''healthy''))])"

text \<open>An environment in which \<open>auth.addListener\<close> throws, and one in which
  \<open>setupAccessibility\<close> does.\<close>

definition failing_auth_env :: env where
  "failing_auth_env =
     good_env\<lparr>raises := (\<lambda>m. if m = InitializeModules then Some (Exn ''auth'') else None)\<rparr>"

definition failing_setup_env :: env where
  "failing_setup_env =
     good_env\<lparr>raises := (\<lambda>m. if m = SetupAccessibility then Some (Exn ''dom'') else None)\<rparr>"

text \<open>The state of a controller whose capability gate has failed in environment \<open>ev\<close>:
  not initialized, \<open>n\<close> auth listeners, the incompatibility notice as document body.\<close>

definition halted :: "env \<Rightarrow> nat \<Rightarrow> app \<Rightarrow> bool" where
  "halted ev n s =
     (\<not> isInitialized s \<and> authListeners s = n
      \<and> body s = CompatibilityWarning (msg_incompatible (reported_missing ev)))"

text \<open>One of the four setup methods of \<open>init\<close> raises.\<close>

definition setup_raises :: "env \<Rightarrow> bool" where
  "setup_raises ev =
     (raises ev SetupGlobalErrorHandling \<noteq> None \<or> raises ev SetupApplicationEvents \<noteq> None
      \<or> raises ev SetupPerformanceMonitoring \<noteq> None \<or> raises ev SetupAccessibility \<noteq> None)"

text \<open>What the scheduler keeps true: the visibility listener is registered once, and the
  polling task runs only while the tab is visible.\<close>

definition visible_while_polling :: "app \<Rightarrow> bool" where
  "visible_while_polling s =
     (count_list (listeners s) OnVisibilityChange = 1 \<and> (polling s = None \<or> \<not> hidden s))"

section \<open>Properties\<close>

subsection \<open>Strings\<close>

lemma split_on_nonempty: "split_on sep xs \<noteq> []"
  by (induction xs) (auto split: list.splits)

lemma split_on_hd: "hd (split_on sep xs) = takeWhile (\<lambda>c. c \<noteq> sep) xs"
  by (induction xs) (auto split: list.splits simp: split_on_nonempty)

text \<open>On a path that starts with \<open>/group/\<close>, the third segment is what follows the prefix
  up to the next slash.\<close>

lemma group_id_segment:
  assumes "startsWith p ''/group/''"
  shows "index_opt (split_on CHR ''/'' p) 2 = Some (takeWhile (\<lambda>c. c \<noteq> CHR ''/'') (drop 7 p))"
proof -
  from assms obtain rest where p: "p = ''/group/'' @ rest"
    unfolding startsWith_def by (metis append_take_drop_id)
  obtain w ws where sp: "split_on CHR ''/'' rest = w # ws"
    using split_on_nonempty by (cases "split_on CHR ''/'' rest") auto
  have "w = takeWhile (\<lambda>c. c \<noteq> CHR ''/'') rest"
    using split_on_hd[of "CHR ''/''" rest] sp by simp
  then show ?thesis
    by (simp add: p sp index_opt_def)
qed

text \<open>\<open>str_includes\<close> is the substring test.\<close>

lemma str_includes_iff: "str_includes s n \<longleftrightarrow> (\<exists>pre post. s = pre @ n @ post)"
proof (induction s)
  case Nil
  then show ?case by auto
next
  case (Cons c cs)
  have sw: "startsWith (c # cs) n \<longleftrightarrow> (\<exists>post. c # cs = n @ post)"
    unfolding startsWith_def by (metis append_eq_conv_conj append_take_drop_id)
  show ?case
  proof
    assume "str_includes (c # cs) n"
    then consider "startsWith (c # cs) n" | "str_includes cs n" by auto
    then show "\<exists>pre post. c # cs = pre @ n @ post"
    proof cases
      case 1
      then obtain post where "c # cs = n @ post" using sw by blast
      then have "c # cs = [] @ n @ post" by simp
      then show ?thesis by blast
    next
      case 2
      then obtain pre post where "cs = pre @ n @ post" using Cons.IH by blast
      then have "c # cs = (c # pre) @ n @ post" by simp
      then show ?thesis by blast
    qed
  next
    assume "\<exists>pre post. c # cs = pre @ n @ post"
    then obtain pre post where e: "c # cs = pre @ n @ post" by blast
    show "str_includes (c # cs) n"
    proof (cases pre)
      case Nil
      with e have "startsWith (c # cs) n" using sw by auto
      then show ?thesis by simp
    next
      case (Cons p ps)
      with e have "cs = ps @ n @ post" by simp
      then have "str_includes cs n" using Cons.IH by blast
      then show ?thesis by simp
    qed
  qed
qed

subsection \<open>Resuming background tasks\<close>

lemma resume_group_id:
  "resumeBackgroundTasks s =
     (case group_id (pathname s) of Some g \<Rightarrow> emit (StartChatPolling g) s | None \<Rightarrow> s)"
  by (simp add: resumeBackgroundTasks_def group_id_def Let_def split: option.splits)

lemma group_id_nonempty: "group_id p = Some g \<Longrightarrow> g \<noteq> [] \<and> startsWith p ''/group/''"
  by (auto simp: group_id_def split: if_splits option.splits)

text \<open>
  Claim C10. \<open>resumeBackgroundTasks\<close> either leaves the state as it is or starts polling
  for a non-empty group id, the segment after \<open>/group/\<close> of the current path. On a path
  that does not start with \<open>/group/\<close>, and on the paths \<open>/group/\<close> and \<open>/group\<close>, it
  starts nothing. It never adds a start call with the empty group id.
\<close>

theorem resume_never_empty_group_id:
  "(resumeBackgroundTasks s = s
      \<or> (\<exists>g. g \<noteq> [] \<and> startsWith (pathname s) ''/group/''
              \<and> g = takeWhile (\<lambda>c. c \<noteq> CHR ''/'') (drop 7 (pathname s))
              \<and> resumeBackgroundTasks s = emit (StartChatPolling g) s))
   \<and> (\<not> startsWith (pathname s) ''/group/'' \<longrightarrow> resumeBackgroundTasks s = s)
   \<and> (pathname s = ''/group/'' \<or> pathname s = ''/group'' \<longrightarrow> resumeBackgroundTasks s = s)
   \<and> (StartChatPolling [] \<in> set (effects (resumeBackgroundTasks s))
        \<longrightarrow> StartChatPolling [] \<in> set (effects s))"
proof (intro conjI impI)
  show "resumeBackgroundTasks s = s
      \<or> (\<exists>g. g \<noteq> [] \<and> startsWith (pathname s) ''/group/''
              \<and> g = takeWhile (\<lambda>c. c \<noteq> CHR ''/'') (drop 7 (pathname s))
              \<and> resumeBackgroundTasks s = emit (StartChatPolling g) s)"
  proof (cases "group_id (pathname s)")
    case None
    then show ?thesis by (simp add: resume_group_id)
  next
    case (Some g)
    then have g: "g \<noteq> []" and sw: "startsWith (pathname s) ''/group/''"
      using group_id_nonempty by blast+
    have "g = takeWhile (\<lambda>c. c \<noteq> CHR ''/'') (drop 7 (pathname s))"
      using Some sw group_id_segment[OF sw] by (simp add: group_id_def split: if_splits)
    with Some g sw show ?thesis by (simp add: resume_group_id)
  qed
next
  assume "\<not> startsWith (pathname s) ''/group/''"
  then show "resumeBackgroundTasks s = s" by (simp add: resumeBackgroundTasks_def)
next
  assume "pathname s = ''/group/'' \<or> pathname s = ''/group''"
  then show "resumeBackgroundTasks s = s"
    by (auto simp: resumeBackgroundTasks_def startsWith_def index_opt_def)
next
  assume a: "StartChatPolling [] \<in> set (effects (resumeBackgroundTasks s))"
  show "StartChatPolling [] \<in> set (effects s)"
  proof (cases "group_id (pathname s)")
    case None
    with a show ?thesis by (simp add: resume_group_id)
  next
    case (Some g)
    then have "g \<noteq> []" using group_id_nonempty by blast
    with a Some show ?thesis by (simp add: resume_group_id emit_def)
  qed
qed

theorem resume_never_empty_group_id_witness:
  "resumeBackgroundTasks (initial\<lparr>pathname := ''/group/''\<rparr>) = initial\<lparr>pathname := ''/group/''\<rparr>
   \<and> resumeBackgroundTasks (initial\<lparr>pathname := ''/dashboard''\<rparr>) = initial\<lparr>pathname := ''/dashboard''\<rparr>
   \<and> \<not> startsWith ''/dashboard'' ''/group/''
   \<and> effects (resumeBackgroundTasks (initial\<lparr>pathname := ''/group/42''\<rparr>)) = [StartChatPolling ''42'']"
  using resume_never_empty_group_id [of "initial\<lparr>pathname := ''/group/''\<rparr>"]
    resume_never_empty_group_id [of "initial\<lparr>pathname := ''/dashboard''\<rparr>"]
    resume_never_empty_group_id [of "initial\<lparr>pathname := ''/group/42''\<rparr>"]
  by (simp add: startsWith_def initial_def emit_def resumeBackgroundTasks_def index_opt_def)

subsection \<open>The global failure interceptor\<close>

text \<open>
  Claim C6. The \<open>api:error\<close> handler logs every signal. On status 401 it shows no
  notification, on a status of 500 or more it shows exactly one server-problem
  notification, and on every other status it shows none.
\<close>

theorem api_error_policy:
  "(status = 401 \<longrightarrow>
      on_api_error status s = emit (ConsoleWarn ''API Error:'') s
      \<and> toasts (on_api_error status s) = toasts s)
   \<and> (status \<ge> 500 \<longrightarrow>
      on_api_error status s
        = emit (ShowToast msg_server ''error'' None) (emit (ConsoleWarn ''API Error:'') s)
      \<and> toasts (on_api_error status s) = toasts s @ [ShowToast msg_server ''error'' None])
   \<and> (status \<noteq> 401 \<and> status < 500 \<longrightarrow>
      on_api_error status s = emit (ConsoleWarn ''API Error:'') s
      \<and> toasts (on_api_error status s) = toasts s)
   \<and> run_handler ev OnApiError (ApiError status) s = on_api_error status s"
  by (simp add: on_api_error_def Let_def emit_def toasts_def run_handler_def)

theorem api_error_policy_witness:
  "toasts (on_api_error 401 initial) = []
   \<and> toasts (on_api_error 503 initial) = [ShowToast msg_server ''error'' None]
   \<and> toasts (on_api_error 404 initial) = []"
proof -
  have none: "toasts initial = []"
    by (simp add: toasts_def initial_def)
  have server: "(500::int) \<le> 503" and client: "(404::int) \<noteq> 401 \<and> (404::int) < 500"
    by simp_all
  have "toasts (on_api_error 401 initial) = toasts initial"
    using api_error_policy [of 401 initial good_env] by blast
  moreover have "toasts (on_api_error 503 initial) = toasts initial @ [ShowToast msg_server ''error'' None]"
    using api_error_policy [of 503 initial good_env] server by blast
  moreover have "toasts (on_api_error 404 initial) = toasts initial"
    using api_error_policy [of 404 initial good_env] client by blast
  ultimately show ?thesis
    using none by simp
qed

text \<open>
  Claim C7. The handler of uncaught errors shows the reload-required notification
  exactly when the error's stack names \<open>app.js\<close>, the controller's own file; otherwise
  it only logs and tracks the error. In both cases the lifecycle state
  (\<open>isInitialized\<close>, the document body, the registered listeners) is unchanged.
\<close>

theorem uncaught_error_policy:
  "(from_app_js err \<longrightarrow>
      on_error err s
        = trackError ''javascript_error''
            (emit (ShowToast msg_critical ''error'' None) (emit (ConsoleError ''Global error:'') s))
      \<and> toasts (on_error err s) = toasts s @ [ShowToast msg_critical ''error'' None])
   \<and> (\<not> from_app_js err \<longrightarrow>
      on_error err s = trackError ''javascript_error'' (emit (ConsoleError ''Global error:'') s)
      \<and> toasts (on_error err s) = toasts s)
   \<and> isInitialized (on_error err s) = isInitialized s
   \<and> body (on_error err s) = body s
   \<and> listeners (on_error err s) = listeners s
   \<and> authListeners (on_error err s) = authListeners s
   \<and> run_handler ev OnError (ErrorEvent err) s = on_error err s
   \<and> (from_app_js err \<longleftrightarrow>
        (\<exists>e st pre post. err = Some e \<and> stack e = Some st \<and> st = pre @ ''app.js'' @ post))"
  by (auto simp: on_error_def Let_def emit_def toasts_def run_handler_def trackError_def
      from_app_js_def str_includes_iff split: option.splits)

theorem uncaught_error_policy_witness:
  "toasts (on_error (Some \<lparr>stack = Some ''Error: x at init (http://host/js/app.js:20:13)''\<rparr>) initial)
     = [ShowToast msg_critical ''error'' None]
   \<and> toasts (on_error (Some \<lparr>stack = Some ''Error: y at render (http://host/js/ui.js:5:1)''\<rparr>) initial) = []
   \<and> toasts (on_error None initial) = []"
proof -
  have none: "toasts initial = []"
    by (simp add: toasts_def initial_def)
  have own: "from_app_js (Some \<lparr>stack = Some ''Error: x at init (http://host/js/app.js:20:13)''\<rparr>)"
    by (simp add: from_app_js_def startsWith_def)
  have other: "\<not> from_app_js (Some \<lparr>stack = Some ''Error: y at render (http://host/js/ui.js:5:1)''\<rparr>)"
    by (simp add: from_app_js_def startsWith_def)
  have absent: "\<not> from_app_js None"
    by (simp add: from_app_js_def)
  have "toasts (on_error (Some \<lparr>stack = Some ''Error: x at init (http://host/js/app.js:20:13)''\<rparr>) initial)
          = toasts initial @ [ShowToast msg_critical ''error'' None]"
    using uncaught_error_policy [of "Some \<lparr>stack = Some ''Error: x at init (http://host/js/app.js:20:13)''\<rparr>" initial good_env]
      own by blast
  moreover have "toasts (on_error (Some \<lparr>stack = Some ''Error: y at render (http://host/js/ui.js:5:1)''\<rparr>) initial)
          = toasts initial"
    using uncaught_error_policy [of "Some \<lparr>stack = Some ''Error: y at render (http://host/js/ui.js:5:1)''\<rparr>" initial good_env]
      other by blast
  moreover have "toasts (on_error None initial) = toasts initial"
    using uncaught_error_policy [of None initial good_env] absent by blast
  ultimately show ?thesis
    using none by simp
qed

subsection \<open>Health check\<close>

text \<open>
  Claim C9, as the code has it. \<open>healthCheck\<close> never lets an exception escape. It
  returns \<open>false\<close> when the API call throws or rejects, when it resolves to \<open>null\<close> or
  \<open>undefined\<close> and when reading \<open>ok\<close> throws. Otherwise it returns \<open>response.ok\<close> as it
  is, so the result is a boolean exactly when that property holds one.
\<close>

theorem healthCheck_contains_failures:
  "\<not> isl (fst (healthCheck outcome s))
   \<and> fst (healthCheck outcome s)
       = Inr (case healthCheck_try outcome of Inl e \<Rightarrow> JBool False | Inr v \<Rightarrow> v)
   \<and> healthCheck_try (ApiThrows e) = Inl e
   \<and> healthCheck_try (ApiResolves JNull) = Inl (Exn ''TypeError'')
   \<and> healthCheck_try (ApiResolves JUndefined) = Inl (Exn ''TypeError'')
   \<and> healthCheck_try (ApiResolves (JObj props))
       = (case map_of props ''ok'' of None \<Rightarrow> Inr JUndefined | Some r \<Rightarrow> r)
   \<and> returns_boolean (fst (healthCheck outcome s))
       = (case healthCheck_try outcome of Inl e \<Rightarrow> True | Inr v \<Rightarrow> is_boolean v)"
  by (simp add: healthCheck_def healthCheck_try_def get_prop_def returns_boolean_def
      is_boolean_def split: sum.splits)

theorem healthCheck_contains_failures_witness:
  "fst (healthCheck (ApiThrows (Exn ''offline'')) initial) = Inr (JBool False)
   \<and> fst (healthCheck (ApiResolves JNull) initial) = Inr (JBool False)
   \<and> fst (healthCheck (ApiResolves (JObj [(''ok'', Inl (Exn ''getter''))])) initial)
       = Inr (JBool False)
   \<and> fst (healthCheck (ApiResolves (JObj [(''ok'', Inr (JBool True))])) initial)
       = Inr (JBool True)
   \<and> fst (healthCheck (ApiResolves (JObj [(''ok'', Inr (JNum 0))])) initial) = Inr (JNum 0)"
proof -
  have a: "healthCheck_try (ApiThrows (Exn ''offline'')) = Inl (Exn ''offline'')"
    using healthCheck_contains_failures [of "ApiThrows (Exn ''offline'')" initial "Exn ''offline''" "[]"]
    by blast
  have b: "healthCheck_try (ApiResolves JNull) = Inl (Exn ''TypeError'')"
    using healthCheck_contains_failures [of "ApiResolves JNull" initial "Exn ''offline''" "[]"]
    by blast
  have c: "healthCheck_try (ApiResolves (JObj [(''ok'', Inl (Exn ''getter''))])) = Inl (Exn ''getter'')"
    using healthCheck_contains_failures [of "ApiResolves JNull" initial "Exn ''offline''"
        "[(''ok'', Inl (Exn ''getter''))]"]
    by simp
  have d: "healthCheck_try (ApiResolves (JObj [(''ok'', Inr (JBool True))])) = Inr (JBool True)"
    using healthCheck_contains_failures [of "ApiResolves JNull" initial "Exn ''offline''"
        "[(''ok'', Inr (JBool True))]"]
    by simp
  have e: "healthCheck_try (ApiResolves (JObj [(''ok'', Inr (JNum 0))])) = Inr (JNum 0)"
    using healthCheck_contains_failures [of "ApiResolves JNull" initial "Exn ''offline''"
        "[(''ok'', Inr (JNum 0))]"]
    by simp
  have r: "fst (healthCheck outcome initial)
       = Inr (case healthCheck_try outcome of Inl e \<Rightarrow> JBool False | Inr v \<Rightarrow> v)" for outcome
    using healthCheck_contains_failures [of outcome initial "Exn ''offline''" "[]"] by blast
  show ?thesis
    by (simp add: r a b c d e)
qed

text \<open>
  Claim C9 as stated fails: the result is not always a boolean. Where the API client
  resolves to an object without a property \<open>ok\<close>, \<open>healthCheck\<close> returns \<open>undefined\<close>.
\<close>

theorem healthCheck_returns_undefined:
  "fst (healthCheck health_body initial) = Inr JUndefined
   \<and> \<not> returns_boolean (fst (healthCheck health_body initial))"
  by (simp add: healthCheck_def healthCheck_try_def get_prop_def health_body_def
      returns_boolean_def is_boolean_def)

subsection \<open>Fields that the operations leave alone\<close>

lemma emit_fields [simp]:
  "isInitialized (emit e s) = isInitialized s"
  "authListeners (emit e s) = authListeners s"
  "body (emit e s) = body s"
  "listeners (emit e s) = listeners s"
  "hidden (emit e s) = hidden s"
  "pathname (emit e s) = pathname s"
  "currentUser (emit e s) = currentUser s"
  "authIsAuthenticated (emit e s) = authIsAuthenticated s"
  "effects (emit e s) = effects s @ [e]"
  by (simp_all add: emit_def)

lemma handleAuthStateChange_fields [simp]:
  "isInitialized (handleAuthStateChange a s) = isInitialized s"
  "authListeners (handleAuthStateChange a s) = authListeners s"
  "body (handleAuthStateChange a s) = body s"
  "listeners (handleAuthStateChange a s) = listeners s"
  "hidden (handleAuthStateChange a s) = hidden s"
  "pathname (handleAuthStateChange a s) = pathname s"
  "authIsAuthenticated (handleAuthStateChange a s) = authIsAuthenticated s"
  by (simp_all add: handleAuthStateChange_def Let_def onUserLogin_def onUserLogout_def
      cleanupUserData_def trackEvent_def updateGlobalUserInfo_def split: option.splits)

lemma setup_fields [simp]:
  "body (addEventListeners hs s) = body s"
  "isInitialized (addEventListeners hs s) = isInitialized s"
  "authListeners (addEventListeners hs s) = authListeners s"
  "effects (addEventListeners hs s) = effects s"
  "listeners (addEventListeners hs s) = listeners s @ hs"
  "hidden (addEventListeners hs s) = hidden s"
  by (simp_all add: addEventListeners_def)

lemma polling_emit [simp]: "polling (emit e s) = ui_polling_step (polling s) e"
  by (simp add: polling_def emit_def)

lemma polling_fields [simp]:
  "polling (s\<lparr>hidden := h\<rparr>) = polling s"
  "polling (s\<lparr>pathname := p\<rparr>) = polling s"
  "polling (s\<lparr>currentUser := u\<rparr>) = polling s"
  "polling (s\<lparr>authIsAuthenticated := b\<rparr>) = polling s"
  "polling (s\<lparr>body := d\<rparr>) = polling s"
  "polling (s\<lparr>isInitialized := i\<rparr>) = polling s"
  "polling (s\<lparr>authListeners := n\<rparr>) = polling s"
  "polling (addEventListeners hs s) = polling s"
  by (simp_all add: polling_def addEventListeners_def)

lemma handleCriticalError_body:
  assumes "body s \<noteq> NoBody"
  shows "handleCriticalError e s
           = (None, trackError ''critical_error''
                ((emit (ConsoleError ''Critical application error:'') s)\<lparr>body := CriticalErrorScreen\<rparr>))"
  using assms by (simp add: handleCriticalError_def Let_def)

lemma handleCriticalError_nobody:
  assumes "body s = NoBody"
  shows "handleCriticalError e s
           = (Some (Exn ''TypeError''), emit (ConsoleError ''Critical application error:'') s)"
  using assms by (simp add: handleCriticalError_def Let_def)

subsection \<open>The capability gate\<close>

lemma unsupported_eq: "unsupported ev feature = not_window ev feature"
  by (simp add: unsupported_def)

lemma array_filter_total:
  "(\<And>x. x \<in> set xs \<Longrightarrow> callback x = Inr (keep x)) \<Longrightarrow> array_filter callback xs = Inr (filter keep xs)"
  by (induction xs) simp_all

lemma check_failed:
  assumes "unsupportedFeatures ev = Inr missing" and "missing \<noteq> []" and "body s \<noteq> NoBody"
  shows "checkBrowserCompatibility ev s
           = (Inr False, s\<lparr>body := CompatibilityWarning (msg_incompatible missing)\<rparr>)"
  using assms
  by (simp add: checkBrowserCompatibility_def showBrowserCompatibilityWarning_def)

lemma check_fails_iff:
  "fst (checkBrowserCompatibility ev s) = Inr False
     \<longleftrightarrow> (\<exists>missing. unsupportedFeatures ev = Inr missing \<and> missing \<noteq> [] \<and> body s \<noteq> NoBody)"
  by (auto simp: checkBrowserCompatibility_def showBrowserCompatibilityWarning_def
      split: sum.splits if_splits)

text \<open>
  Claim C4, evaluated on the code. In a standard browser with every required
  capability the gate returns \<open>false\<close> and renders the notice, naming \<open>querySelector\<close> and
  \<open>classList\<close>: it looks for them on \<open>window\<close>, where they never are. Without fetch the
  gate names \<open>fetch\<close>, \<open>querySelector\<close> and \<open>classList\<close>, not \<open>fetch\<close> alone.
\<close>

theorem gate_fails_in_standard_browser:
  "unsupportedFeatures standard_browser = Inr [''querySelector'', ''classList'']
   \<and> checkBrowserCompatibility standard_browser initial
       = (Inr False,
          initial\<lparr>body := CompatibilityWarning
            (''Seu navegador n'' @ [CHR 0xE3] @ ''o suporta alguns recursos necess'' @ [CHR 0xE1]
             @ ''rios: querySelector, classList. Por favor, atualize seu navegador.'')\<rparr>)
   \<and> unsupportedFeatures standard_browser_without_fetch
       = Inr [''fetch'', ''querySelector'', ''classList'']
   \<and> checkBrowserCompatibility standard_browser_without_fetch initial
       = (Inr False,
          initial\<lparr>body := CompatibilityWarning
            (''Seu navegador n'' @ [CHR 0xE3] @ ''o suporta alguns recursos necess'' @ [CHR 0xE1]
             @ ''rios: fetch, querySelector, classList. Por favor, atualize seu navegador.'')\<rparr>)"
proof -
  have a: "unsupportedFeatures standard_browser = Inr [''querySelector'', ''classList'']"
    by (simp add: unsupportedFeatures_def requiredFeatures_def unsupported_eq not_window_def
        standard_browser_def good_env_def)
  have b: "unsupportedFeatures standard_browser_without_fetch
       = Inr [''fetch'', ''querySelector'', ''classList'']"
    by (simp add: unsupportedFeatures_def requiredFeatures_def unsupported_eq not_window_def
        standard_browser_without_fetch_def good_env_def)
  have c: "body initial \<noteq> NoBody"
    by (simp add: initial_def)
  show ?thesis
    by (simp add: a b check_failed [OF a _ c] check_failed [OF b _ c] msg_incompatible_def)
qed

subsection \<open>A failed gate halts the lifecycle\<close>

lemma reported_missing_eq: "unsupportedFeatures ev = Inr missing \<Longrightarrow> reported_missing ev = missing"
  by (simp add: reported_missing_def)

lemma startApplication_incompatible:
  assumes "unsupportedFeatures ev = Inr missing" and "missing \<noteq> []" and "body s \<noteq> NoBody"
  shows "startApplication ev s
           = (None, (emit (ConsoleLog ''EduConnect: Starting application...'') s)
                      \<lparr>body := CompatibilityWarning (msg_incompatible missing)\<rparr>)"
proof -
  have "body (emit (ConsoleLog ''EduConnect: Starting application...'') s) \<noteq> NoBody"
    using assms(3) by simp
  from check_failed [OF assms(1,2) this] show ?thesis
    by (simp add: startApplication_def try_catch_def Let_def)
qed

lemma run_handler_halted:
  assumes "unsupportedFeatures ev = Inr missing" and "missing \<noteq> []" and "halted ev n s"
  shows "halted ev n (run_handler ev h e s)"
proof -
  have b: "body s \<noteq> NoBody"
    using assms(3) by (simp add: halted_def)
  show ?thesis
    using assms(3)
    by (cases h; cases e)
      (simp_all add: run_handler_def halted_def startApplication_incompatible [OF assms(1,2) b]
        reported_missing_eq [OF assms(1)]
        on_unhandledrejection_def on_error_def on_api_error_def on_online_def on_offline_def
        on_visibilitychange_def pauseBackgroundTasks_def resume_group_id cleanup_def
        on_focusin_def on_load_def on_keydown_def on_router_navigate_def on_ui_modal_def
        trackError_def trackEvent_def trackPerformance_def Let_def split: option.splits)
qed

lemma foldl_handlers_halted:
  assumes "unsupportedFeatures ev = Inr missing" and "missing \<noteq> []" and "halted ev n s"
  shows "halted ev n (foldl (\<lambda>s' h. run_handler ev h e s') s hs)"
  using assms(3)
  by (induction hs arbitrary: s) (simp_all add: run_handler_halted [OF assms(1,2)])

lemma funpow_auth_halted:
  "halted ev n s \<Longrightarrow> halted ev n ((handleAuthStateChange a ^^ k) s)"
  by (induction k) (simp_all add: halted_def)

lemma environment_update_halted:
  "halted ev n s \<Longrightarrow> halted ev n (environment_update e s)"
  by (cases e) (simp_all add: environment_update_def halted_def)

lemma dispatch_halted:
  assumes "unsupportedFeatures ev = Inr missing" and "missing \<noteq> []" and "halted ev n s"
  shows "halted ev n (dispatch ev e s)"
proof (cases e)
  case (AuthNotify a)
  then show ?thesis
    using funpow_auth_halted [OF environment_update_halted [OF assms(3)]]
    by (simp add: dispatch_def)
qed (use foldl_handlers_halted [OF assms(1,2) environment_update_halted [OF assms(3)]]
     in \<open>simp_all add: dispatch_def\<close>)

lemma run_events_halted:
  assumes "unsupportedFeatures ev = Inr missing" and "missing \<noteq> []" and "halted ev n s"
  shows "halted ev n (run_events ev es s)"
  using assms(3) unfolding run_events_def
  by (induction es arbitrary: s) (simp_all add: dispatch_halted [OF assms(1,2)])

text \<open>
  Claim C5. When the gate fails, that is when \<open>checkBrowserCompatibility\<close> returns
  \<open>false\<close>, \<open>startApplication\<close> only logs its start and replaces the document body by the
  incompatibility notice: it subscribes no auth listener and does not set
  \<open>isInitialized\<close>. Whatever events follow, \<open>isInitialized\<close> stays false, no auth listener
  is subscribed and the notice stays in place.
\<close>

theorem failed_gate_never_ready:
  assumes "fst (checkBrowserCompatibility ev s) = Inr False" and "\<not> isInitialized s"
  shows "startApplication ev s
           = (None, (emit (ConsoleLog ''EduConnect: Starting application...'') s)
                      \<lparr>body := CompatibilityWarning (msg_incompatible (reported_missing ev))\<rparr>)
         \<and> \<not> isInitialized (run_events ev es (snd (startApplication ev s)))
         \<and> authListeners (run_events ev es (snd (startApplication ev s))) = authListeners s
         \<and> body (run_events ev es (snd (startApplication ev s)))
             = CompatibilityWarning (msg_incompatible (reported_missing ev))"
proof -
  from assms(1) obtain missing where m: "unsupportedFeatures ev = Inr missing"
    and ne: "missing \<noteq> []" and b: "body s \<noteq> NoBody"
    using check_fails_iff by blast
  note start = startApplication_incompatible [OF m ne b]
  have "halted ev (authListeners s) (snd (startApplication ev s))"
    using assms(2) by (simp add: start halted_def reported_missing_eq [OF m])
  then have "halted ev (authListeners s) (run_events ev es (snd (startApplication ev s)))"
    by (rule run_events_halted [OF m ne])
  then show ?thesis
    using start by (simp add: halted_def reported_missing_eq [OF m])
qed

theorem failed_gate_never_ready_witness:
  "fst (checkBrowserCompatibility no_fetch_env initial) = Inr False \<and> \<not> isInitialized initial
   \<and> \<not> isInitialized
         (run_events no_fetch_env [DOMContentLoaded, AuthNotify signed_in, VisibilityChange False]
            (snd (startApplication no_fetch_env initial)))
   \<and> authListeners
         (run_events no_fetch_env [DOMContentLoaded, AuthNotify signed_in, VisibilityChange False]
            (snd (startApplication no_fetch_env initial))) = 0
   \<and> body (snd (startApplication no_fetch_env initial))
       = CompatibilityWarning (msg_incompatible [''fetch''])"
proof -
  have u: "unsupportedFeatures no_fetch_env = Inr [''fetch'']"
    by (simp add: unsupportedFeatures_def requiredFeatures_def unsupported_eq not_window_def
        no_fetch_env_def good_env_def)
  have ib: "body initial \<noteq> NoBody"
    by (simp add: initial_def)
  have gate: "fst (checkBrowserCompatibility no_fetch_env initial) = Inr False"
    using check_failed [OF u _ ib] by simp
  have ni: "\<not> isInitialized initial" and al: "authListeners initial = 0"
    by (simp_all add: initial_def)
  note t = failed_gate_never_ready [OF gate ni,
        of "[DOMContentLoaded, AuthNotify signed_in, VisibilityChange False]"]
  have r: "\<not> isInitialized
         (run_events no_fetch_env [DOMContentLoaded, AuthNotify signed_in, VisibilityChange False]
            (snd (startApplication no_fetch_env initial)))
      \<and> authListeners
         (run_events no_fetch_env [DOMContentLoaded, AuthNotify signed_in, VisibilityChange False]
            (snd (startApplication no_fetch_env initial))) = authListeners initial"
    using t by blast
  have "startApplication no_fetch_env initial
           = (None, (emit (ConsoleLog ''EduConnect: Starting application...'') initial)
                      \<lparr>body := CompatibilityWarning (msg_incompatible (reported_missing no_fetch_env))\<rparr>)"
    using t by blast
  then have b: "body (snd (startApplication no_fetch_env initial))
       = CompatibilityWarning (msg_incompatible [''fetch''])"
    by (simp add: reported_missing_eq [OF u])
  show ?thesis
    using gate ni al r b by simp
qed

subsection \<open>Initialization\<close>

lemma run_steps_append:
  "run_steps (fs @ gs) s
     = (case run_steps fs s of (Some e, s') \<Rightarrow> (Some e, s') | (None, s') \<Rightarrow> run_steps gs s')"
  by (induction fs arbitrary: s) (auto split: prod.splits option.splits)

lemma init_unfold:
  "init ev s
     = (case setup_phase ev s of
          (Some e, s') \<Rightarrow>
            handleCriticalError e (emit (ConsoleError ''Application initialization failed:'') s')
        | (None, s') \<Rightarrow>
            (None, if readyState_loading ev then addEventListeners [OnDOMContentLoaded] s'
                   else snd (startApplication ev s')))"
proof -
  let ?last = "\<lambda>s. if readyState_loading ev
                then (None, addEventListeners [OnDOMContentLoaded] s)
                else (None, snd (startApplication ev s))"
  let ?steps = "[pure_step (emit (ConsoleLog ''EduConnect: Initializing application...'')),
        setupGlobalErrorHandling ev, setupApplicationEvents ev, setupPerformanceMonitoring ev,
        setupAccessibility ev]"
  have "run_steps (?steps @ [?last]) s
      = (case setup_phase ev s of (Some e, s') \<Rightarrow> (Some e, s') | (None, s') \<Rightarrow> run_steps [?last] s')"
    unfolding setup_phase_def by (rule run_steps_append)
  then show ?thesis
    by (simp add: init_def try_catch_def split: prod.splits option.splits)
qed

lemma setup_phase_fields:
  "body (snd (setup_phase ev s)) = body s"
  "isInitialized (snd (setup_phase ev s)) = isInitialized s"
  "authListeners (snd (setup_phase ev s)) = authListeners s"
  "hidden (snd (setup_phase ev s)) = hidden s"
  "polling (snd (setup_phase ev s)) = polling s"
  by (simp_all add: setup_phase_def pure_step_def guarded_def setupGlobalErrorHandling_def
      setupApplicationEvents_def setupPerformanceMonitoring_def setupAccessibility_def
      addSkipLink_def ui_polling_step_def Let_def split: option.splits)

lemma setup_phase_ok:
  assumes "\<not> setup_raises ev" and "body s \<noteq> NoBody"
  shows "fst (setup_phase ev s) = None"
    and "listeners (snd (setup_phase ev s))
           = listeners s
             @ [OnUnhandledRejection, OnError, OnApiError, OnOnline, OnOffline,
                OnVisibilityChange, OnBeforeUnload, OnFocusIn]
             @ (if performance_measure ev then [OnLoad] else [])
             @ [OnKeydown, OnRouterNavigate, OnUiModal]"
  using assms
  by (simp_all add: setup_raises_def setup_phase_def pure_step_def guarded_def
      setupGlobalErrorHandling_def setupApplicationEvents_def setupPerformanceMonitoring_def
      setupAccessibility_def addSkipLink_def Let_def)

lemma setup_phase_raises:
  assumes "setup_raises ev"
  shows "fst (setup_phase ev s) \<noteq> None"
  using assms
  by (auto simp: setup_raises_def setup_phase_def pure_step_def guarded_def
      setupGlobalErrorHandling_def setupApplicationEvents_def setupPerformanceMonitoring_def
      setupAccessibility_def addSkipLink_def Let_def split: option.splits)

lemma setup_phase_nobody:
  assumes "body s = NoBody"
  shows "fst (setup_phase ev s) \<noteq> None"
  using assms
  by (simp add: setup_phase_def pure_step_def guarded_def
      setupGlobalErrorHandling_def setupApplicationEvents_def setupPerformanceMonitoring_def
      setupAccessibility_def addSkipLink_def Let_def split: option.splits)

lemma startApplication_scheduler_fields:
  "listeners (snd (startApplication ev s)) = listeners s
   \<and> hidden (snd (startApplication ev s)) = hidden s
   \<and> polling (snd (startApplication ev s)) = polling s"
  by (simp add: startApplication_def try_catch_def pure_step_def guarded_def initializeModules_def
      checkBrowserCompatibility_def showBrowserCompatibilityWarning_def trackEvent_def
      handleCriticalError_def trackError_def ui_polling_step_def Let_def
      split: option.splits sum.splits)

lemma startApplication_returns:
  assumes "body s \<noteq> NoBody"
  shows "fst (startApplication ev s) = None"
  using assms
  by (simp add: startApplication_def try_catch_def pure_step_def guarded_def initializeModules_def
      checkBrowserCompatibility_def showBrowserCompatibilityWarning_def handleCriticalError_def
      Let_def split: option.splits sum.splits)

lemma startApplication_failure:
  assumes "body s \<noteq> NoBody"
    and "gate_raises ev \<or> unsupportedFeatures ev = Inr [] \<and> raises ev InitializeModules \<noteq> None"
  shows "body (snd (startApplication ev s)) = CriticalErrorScreen
         \<and> last (effects (snd (startApplication ev s))) = TrackedError ''critical_error''
         \<and> isInitialized (snd (startApplication ev s)) = isInitialized s
         \<and> authListeners (snd (startApplication ev s)) = authListeners s"
  using assms
  by (auto simp: gate_raises_def isl_def startApplication_def try_catch_def pure_step_def
      guarded_def initializeModules_def checkBrowserCompatibility_def handleCriticalError_def
      trackError_def Let_def)

lemma startApplication_ok:
  assumes "unsupportedFeatures ev = Inr []" and "raises ev InitializeModules = None"
  shows "fst (startApplication ev s) = None
         \<and> isInitialized (snd (startApplication ev s))
         \<and> authListeners (snd (startApplication ev s)) = Suc (authListeners s)
         \<and> body (snd (startApplication ev s)) = body s"
  using assms
  by (simp add: startApplication_def try_catch_def pure_step_def guarded_def
      initializeModules_def checkBrowserCompatibility_def trackEvent_def Let_def)

lemma startApplication_body:
  assumes "body (snd (startApplication ev s)) = CriticalErrorScreen"
  shows "body s = CriticalErrorScreen \<or> gate_raises ev \<or> raises ev InitializeModules \<noteq> None"
  using assms
  by (auto simp: gate_raises_def startApplication_def try_catch_def pure_step_def guarded_def
      initializeModules_def checkBrowserCompatibility_def showBrowserCompatibilityWarning_def
      handleCriticalError_def trackEvent_def trackError_def Let_def
      split: option.splits sum.splits if_splits)

lemma init_returns:
  assumes "body s \<noteq> NoBody"
  shows "fst (init ev s) = None"
proof (cases "setup_phase ev s")
  case (Pair r s')
  then have "body s' = body s"
    using setup_phase_fields(1) [of ev s] by simp
  with assms Pair show ?thesis
    by (cases r) (simp_all add: init_unfold handleCriticalError_def Let_def)
qed

lemma init_setup_failure:
  assumes "body s \<noteq> NoBody" and "setup_raises ev"
  shows "body (snd (init ev s)) = CriticalErrorScreen
         \<and> last (effects (snd (init ev s))) = TrackedError ''critical_error''
         \<and> isInitialized (snd (init ev s)) = isInitialized s
         \<and> authListeners (snd (init ev s)) = authListeners s"
proof (cases "setup_phase ev s")
  case (Pair r s')
  then have same: "body s' = body s" "isInitialized s' = isInitialized s"
    "authListeners s' = authListeners s"
    using setup_phase_fields(1,2,3) [of ev s] by simp_all
  from Pair setup_phase_raises [OF assms(2), of s] obtain e where "r = Some e"
    by auto
  with Pair same assms(1) show ?thesis
    by (simp add: init_unfold handleCriticalError_def trackError_def Let_def)
qed

lemma init_without_body:
  assumes "body s = NoBody"
  shows "fst (init ev s) = Some (Exn ''TypeError'') \<and> body (snd (init ev s)) = NoBody"
proof (cases "setup_phase ev s")
  case (Pair r s')
  then have same: "body s' = body s"
    using setup_phase_fields(1) [of ev s] by simp
  from Pair setup_phase_nobody [OF assms, of ev] obtain e where "r = Some e"
    by auto
  with Pair same assms show ?thesis
    by (simp add: init_unfold handleCriticalError_def Let_def)
qed

lemma init_listeners_added:
  assumes "\<not> setup_raises ev" and "body s \<noteq> NoBody"
  shows "listeners (snd (init ev s)) = listeners s @ init_listeners ev"
proof (cases "setup_phase ev s")
  case (Pair r s')
  with setup_phase_ok [OF assms] have r: "r = None"
    and l: "listeners s' = listeners s
             @ [OnUnhandledRejection, OnError, OnApiError, OnOnline, OnOffline,
                OnVisibilityChange, OnBeforeUnload, OnFocusIn]
             @ (if performance_measure ev then [OnLoad] else [])
             @ [OnKeydown, OnRouterNavigate, OnUiModal]"
    by simp_all
  show ?thesis
    using Pair r l startApplication_scheduler_fields [of ev s']
    by (simp add: init_unfold init_listeners_def)
qed

lemma init_subscribes:
  assumes "\<not> setup_raises ev" and "body s \<noteq> NoBody" and "\<not> readyState_loading ev"
    and "unsupportedFeatures ev = Inr []" and "raises ev InitializeModules = None"
  shows "authListeners (snd (init ev s)) = Suc (authListeners s)"
proof (cases "setup_phase ev s")
  case (Pair r s')
  with setup_phase_ok(1) [OF assms(1,2)] have r: "r = None"
    by simp
  have "authListeners s' = authListeners s"
    using Pair setup_phase_fields(3) [of ev s] by simp
  then show ?thesis
    using Pair r assms(3) startApplication_ok [OF assms(4,5), of s']
    by (simp add: init_unfold)
qed

lemma init_body:
  assumes "body (snd (init ev s)) = CriticalErrorScreen"
  shows "body s = CriticalErrorScreen \<or> setup_raises ev \<or> gate_raises ev
         \<or> raises ev InitializeModules \<noteq> None"
proof (cases "setup_raises ev \<or> body s = CriticalErrorScreen")
  case True
  then show ?thesis by blast
next
  case False
  show ?thesis
  proof (cases "body s = NoBody")
    case True
    with assms init_without_body [OF True, of ev] show ?thesis by simp
  next
    case nb: False
    obtain r s' where p: "setup_phase ev s = (r, s')"
      by (cases "setup_phase ev s")
    with setup_phase_ok(1) [of ev s] False nb have r: "r = None"
      by simp
    have same: "body s' = body s"
      using p setup_phase_fields(1) [of ev s] by simp
    show ?thesis
    proof (cases "readyState_loading ev")
      case True
      with assms p r same False show ?thesis
        by (simp add: init_unfold)
    next
      case nl: False
      with assms p r have "body (snd (startApplication ev s')) = CriticalErrorScreen"
        by (simp add: init_unfold)
      from startApplication_body [OF this] same show ?thesis
        by auto
    qed
  qed
qed

lemma good_env_gate: "unsupportedFeatures good_env = Inr []"
  by (simp add: unsupportedFeatures_def requiredFeatures_def unsupported_eq not_window_def
      good_env_def)

lemma good_env_raises: "raises good_env m = None"
  by (simp add: good_env_def)

lemma good_env_fields:
  "\<not> setup_raises good_env" "raises good_env InitializeModules = None"
  "\<not> readyState_loading good_env" "performance_measure good_env"
  "\<not> performance_memory good_env"
  by (simp_all add: setup_raises_def good_env_def)

lemma ready_value:
  "ready =
     \<lparr>isInitialized = True, currentUser = None,
      listeners =
        [OnUnhandledRejection, OnError, OnApiError, OnOnline, OnOffline, OnVisibilityChange,
         OnBeforeUnload, OnFocusIn, OnLoad, OnKeydown, OnRouterNavigate, OnUiModal],
      authListeners = 1, body = AppPage, hidden = False, pathname = ''/'',
      authIsAuthenticated = False,
      effects =
        [ConsoleLog ''EduConnect: Initializing application...'', PerformanceMark ''app-start'',
         InsertSkipLink, ConsoleLog ''EduConnect: Starting application...'',
         ConsoleLog ''EduConnect: Application ready!'', TrackedEvent ''app_initialized'' []]\<rparr>"
  by (simp add: ready_def init_def try_catch_def pure_step_def guarded_def
      setupGlobalErrorHandling_def setupApplicationEvents_def setupPerformanceMonitoring_def
      setupAccessibility_def addEventListeners_def addSkipLink_def startApplication_def
      checkBrowserCompatibility_def good_env_gate good_env_fields good_env_raises
      initializeModules_def trackEvent_def emit_def initial_def Let_def)

text \<open>
  Claim C8, as the code has it. \<open>init\<close> has no guard: whatever \<open>isInitialized\<close> holds, a
  call in which no setup method raises registers all its listeners again, and with a
  ready document, a passing gate and a working auth collaborator it subscribes one
  more auth listener. While \<open>document.body\<close> exists, neither \<open>init\<close> nor
  \<open>startApplication\<close> lets an exception escape: when a setup method raises, \<open>init\<close> ends
  in \<open>handleCriticalError\<close>, which renders the critical error screen and tracks
  \<open>critical_error\<close> last; \<open>startApplication\<close> does the same when the gate throws or when
  the gate passes and the auth subscription raises. The critical error screen appears
  only after such a failure.
\<close>

theorem init_contains_failures:
  "(\<not> setup_raises ev \<and> body s \<noteq> NoBody \<longrightarrow>
      listeners (snd (init ev s)) = listeners s @ init_listeners ev)
   \<and> (\<not> setup_raises ev \<and> body s \<noteq> NoBody \<and> \<not> readyState_loading ev
        \<and> unsupportedFeatures ev = Inr [] \<and> raises ev InitializeModules = None \<longrightarrow>
      authListeners (snd (init ev s)) = Suc (authListeners s))
   \<and> (body s \<noteq> NoBody \<longrightarrow> fst (init ev s) = None \<and> fst (startApplication ev s) = None)
   \<and> (body s \<noteq> NoBody \<and> setup_raises ev \<longrightarrow>
        body (snd (init ev s)) = CriticalErrorScreen
        \<and> last (effects (snd (init ev s))) = TrackedError ''critical_error''
        \<and> isInitialized (snd (init ev s)) = isInitialized s
        \<and> authListeners (snd (init ev s)) = authListeners s)
   \<and> (body s \<noteq> NoBody
        \<and> (gate_raises ev \<or> unsupportedFeatures ev = Inr [] \<and> raises ev InitializeModules \<noteq> None) \<longrightarrow>
        body (snd (startApplication ev s)) = CriticalErrorScreen
        \<and> last (effects (snd (startApplication ev s))) = TrackedError ''critical_error''
        \<and> isInitialized (snd (startApplication ev s)) = isInitialized s
        \<and> authListeners (snd (startApplication ev s)) = authListeners s)
   \<and> (body (snd (init ev s)) = CriticalErrorScreen \<longrightarrow>
        body s = CriticalErrorScreen \<or> setup_raises ev \<or> gate_raises ev
        \<or> raises ev InitializeModules \<noteq> None)"
proof (intro conjI impI)
  assume "\<not> setup_raises ev \<and> body s \<noteq> NoBody"
  then show "listeners (snd (init ev s)) = listeners s @ init_listeners ev"
    using init_listeners_added by blast
next
  assume "\<not> setup_raises ev \<and> body s \<noteq> NoBody \<and> \<not> readyState_loading ev
        \<and> unsupportedFeatures ev = Inr [] \<and> raises ev InitializeModules = None"
  then show "authListeners (snd (init ev s)) = Suc (authListeners s)"
    using init_subscribes by blast
next
  assume b: "body s \<noteq> NoBody"
  show "fst (init ev s) = None" by (rule init_returns [OF b])
  show "fst (startApplication ev s) = None" by (rule startApplication_returns [OF b])
next
  assume a: "body s \<noteq> NoBody \<and> setup_raises ev"
  note f = init_setup_failure [OF conjunct1 [OF a] conjunct2 [OF a]]
  from f show "body (snd (init ev s)) = CriticalErrorScreen" by blast
  from f show "last (effects (snd (init ev s))) = TrackedError ''critical_error''" by blast
  from f show "isInitialized (snd (init ev s)) = isInitialized s" by blast
  from f show "authListeners (snd (init ev s)) = authListeners s" by blast
next
  assume a: "body s \<noteq> NoBody
        \<and> (gate_raises ev \<or> unsupportedFeatures ev = Inr [] \<and> raises ev InitializeModules \<noteq> None)"
  note f = startApplication_failure [OF conjunct1 [OF a] conjunct2 [OF a]]
  from f show "body (snd (startApplication ev s)) = CriticalErrorScreen" by blast
  from f show "last (effects (snd (startApplication ev s))) = TrackedError ''critical_error''" by blast
  from f show "isInitialized (snd (startApplication ev s)) = isInitialized s" by blast
  from f show "authListeners (snd (startApplication ev s)) = authListeners s" by blast
next
  assume "body (snd (init ev s)) = CriticalErrorScreen"
  then show "body s = CriticalErrorScreen \<or> setup_raises ev \<or> gate_raises ev
        \<or> raises ev InitializeModules \<noteq> None"
    by (rule init_body)
qed

theorem init_contains_failures_witness:
  "isInitialized ready
   \<and> listeners (snd (init good_env ready)) = listeners ready @ init_listeners good_env
   \<and> authListeners (snd (init good_env ready)) = Suc (authListeners ready)
   \<and> setup_raises failing_setup_env
   \<and> fst (init failing_setup_env initial) = None
   \<and> body (snd (init failing_setup_env initial)) = CriticalErrorScreen
   \<and> body (snd (startApplication failing_auth_env initial)) = CriticalErrorScreen
   \<and> gate_raises blocked_storage_env
   \<and> body (snd (startApplication blocked_storage_env initial)) = CriticalErrorScreen
   \<and> isInitialized (snd (startApplication blocked_storage_env initial)) = False"
proof -
  have rb: "body ready \<noteq> NoBody" and ri: "isInitialized ready"
    by (simp_all add: ready_value)
  have ib: "body initial \<noteq> NoBody" and ii: "isInitialized initial = False"
    by (simp_all add: initial_def)
  have sr: "setup_raises failing_setup_env"
    by (simp add: setup_raises_def failing_setup_env_def good_env_def)
  have u: "unsupportedFeatures failing_auth_env = Inr []"
    by (simp add: unsupportedFeatures_def requiredFeatures_def unsupported_eq not_window_def
        failing_auth_env_def good_env_def)
  have r: "raises failing_auth_env InitializeModules \<noteq> None"
    by (simp add: failing_auth_env_def good_env_def)
  have g: "gate_raises blocked_storage_env"
    by (simp add: gate_raises_def unsupportedFeatures_def requiredFeatures_def unsupported_eq
        not_window_def blocked_storage_env_def good_env_def)
  note again = init_contains_failures [of good_env ready]
  note in_setup = init_contains_failures [of failing_setup_env initial]
  note auth = init_contains_failures [of failing_auth_env initial]
  note gate = init_contains_failures [of blocked_storage_env initial]
  have 1: "listeners (snd (init good_env ready)) = listeners ready @ init_listeners good_env"
    using again rb good_env_fields(1) by blast
  have 2: "authListeners (snd (init good_env ready)) = Suc (authListeners ready)"
    using again rb good_env_fields(1,2,3) good_env_gate by blast
  have 3: "fst (init failing_setup_env initial) = None"
    using in_setup ib by blast
  have 4: "body (snd (init failing_setup_env initial)) = CriticalErrorScreen"
    using in_setup ib sr by blast
  have 5: "body (snd (startApplication failing_auth_env initial)) = CriticalErrorScreen"
    using auth ib u r by blast
  have 6: "body (snd (startApplication blocked_storage_env initial)) = CriticalErrorScreen
      \<and> isInitialized (snd (startApplication blocked_storage_env initial)) = isInitialized initial"
    using gate ib g by blast
  show ?thesis
    using ri 1 2 sr 3 4 5 g 6 ii by simp
qed

text \<open>
  Claim C8 as stated fails twice. \<open>init\<close> does not test \<open>isInitialized\<close>: called again on
  the initialized controller it registers every listener a second time and subscribes
  a second auth listener. And \<open>init\<close> can throw past its boundary: run before the body
  is parsed, \<open>addSkipLink\<close> raises, \<open>handleCriticalError\<close> raises in turn on the missing
  body, the promise of \<open>init\<close> rejects and no screen is rendered.
\<close>

theorem init_repeats_work:
  "isInitialized ready
   \<and> authListeners ready = 1
   \<and> authListeners (snd (init good_env ready)) = 2
   \<and> listeners (snd (init good_env ready)) = listeners ready @ listeners ready
   \<and> snd (init good_env ready) \<noteq> ready
   \<and> fst (init good_env in_head) = Some (Exn ''TypeError'')
   \<and> body (snd (init good_env in_head)) = NoBody"
proof -
  have rb: "body ready \<noteq> NoBody"
    by (simp add: ready_value)
  have l: "listeners ready = init_listeners good_env"
    by (simp add: ready_value init_listeners_def good_env_fields)
  have a: "authListeners (snd (init good_env ready)) = Suc (authListeners ready)"
    by (rule init_subscribes [OF good_env_fields(1) rb good_env_fields(3) good_env_gate
          good_env_fields(2)])
  have b: "listeners (snd (init good_env ready)) = listeners ready @ listeners ready"
    using init_listeners_added [OF good_env_fields(1) rb] l by simp
  have c: "isInitialized ready \<and> authListeners ready = 1"
    by (simp add: ready_value)
  have d: "body in_head = NoBody"
    by (simp add: in_head_def)
  show ?thesis
    using a b c init_without_body [OF d, of good_env] by auto
qed

subsection \<open>Auth notifications\<close>

lemma login_count_emit [simp]:
  "login_count (emit e s) = login_count s + (if is_login e then 1 else 0)"
  "logout_count (emit e s) = logout_count s + (if is_logout e then 1 else 0)"
  by (simp_all add: login_count_def logout_count_def)

lemma count_currentUser [simp]:
  "login_count (s\<lparr>currentUser := u\<rparr>) = login_count s"
  "logout_count (s\<lparr>currentUser := u\<rparr>) = logout_count s"
  "logout_count (s\<lparr>hidden := h\<rparr>) = logout_count s"
  "logout_count (s\<lparr>pathname := p\<rparr>) = logout_count s"
  "logout_count (s\<lparr>authIsAuthenticated := b\<rparr>) = logout_count s"
  by (simp_all add: login_count_def logout_count_def)

lemma handleAuthStateChange_login:
  "login_count (handleAuthStateChange a s)
     = login_count s + (if isAuthenticated a \<and> user a \<noteq> None then 1 else 0)"
  by (simp add: handleAuthStateChange_def Let_def onUserLogin_def onUserLogout_def
      cleanupUserData_def trackEvent_def updateGlobalUserInfo_def split: option.splits)

lemma handleAuthStateChange_logout:
  "logout_count (handleAuthStateChange a s)
     \<le> logout_count s + (if isAuthenticated a then 0 else 1)"
  by (simp add: handleAuthStateChange_def Let_def onUserLogin_def onUserLogout_def
      cleanupUserData_def trackEvent_def updateGlobalUserInfo_def split: option.splits)

text \<open>
  Claim C2, as the code has it. The login side effects fire once for every notification
  that is authenticated and carries a user, whether or not the previous notification
  was the same, and for no other notification. The logout side effects fire at most
  once per unauthenticated notification and never for an authenticated one.
\<close>

theorem login_fires_per_notification:
  "login_count (deliver notifications s)
     = login_count s + length (filter (\<lambda>a. isAuthenticated a \<and> user a \<noteq> None) notifications)
   \<and> logout_count (deliver notifications s)
     \<le> logout_count s + length (filter (\<lambda>a. \<not> isAuthenticated a) notifications)"
proof (induction notifications arbitrary: s)
  case Nil
  then show ?case by (simp add: deliver_def)
next
  case (Cons a rest)
  have step: "deliver (a # rest) s = deliver rest (handleAuthStateChange a s)"
    by (simp add: deliver_def)
  have "logout_count (deliver rest (handleAuthStateChange a s))
      \<le> logout_count (handleAuthStateChange a s) + length (filter (\<lambda>a. \<not> isAuthenticated a) rest)"
    using Cons.IH by blast
  also have "\<dots> \<le> logout_count s + (if isAuthenticated a then 0 else 1)
      + length (filter (\<lambda>a. \<not> isAuthenticated a) rest)"
    using handleAuthStateChange_logout [of a s] by simp
  finally have out: "logout_count (deliver (a # rest) s)
      \<le> logout_count s + length (filter (\<lambda>a. \<not> isAuthenticated a) (a # rest))"
    by (cases "isAuthenticated a") (simp_all add: step)
  have "login_count (deliver (a # rest) s)
      = login_count s + length (filter (\<lambda>a. isAuthenticated a \<and> user a \<noteq> None) (a # rest))"
    using Cons.IH [of "handleAuthStateChange a s"] by (simp add: step handleAuthStateChange_login)
  with out show ?case by blast
qed

theorem login_fires_per_notification_witness:
  "login_count (deliver [signed_in, signed_in, signed_out] initial) = 2
   \<and> logout_count (deliver [signed_in, signed_in, signed_out] initial) \<le> 1"
  using login_fires_per_notification [of "[signed_in, signed_in, signed_out]" initial]
  by (simp add: signed_in_def signed_out_def login_count_def logout_count_def initial_def)

text \<open>
  Claim C2 as stated fails: \<open>handleAuthStateChange\<close> does not compare the notification
  with the cached state. Two identical notifications of a signed-in user hold one
  transition of \<open>isAuthenticated\<close> and fire the login side effects twice.
\<close>

theorem repeated_login_refires:
  "login_count (deliver [signed_in, signed_in] initial) = 2
   \<and> login_transitions False [signed_in, signed_in] = 1
   \<and> \<not> spec_auth_idempotence [signed_in, signed_in]"
proof -
  have zero: "login_count initial = 0"
    by (simp add: login_count_def initial_def)
  have auth: "isAuthenticated signed_in \<and> user signed_in \<noteq> None"
    by (simp add: signed_in_def)
  have fired: "login_count (deliver [signed_in, signed_in] initial) = 2"
    by (simp add: deliver_def handleAuthStateChange_login auth zero)
  have once: "login_transitions False [signed_in, signed_in] = 1"
    by (simp add: auth)
  show ?thesis
    using fired once by (simp add: spec_auth_idempotence_def auth)
qed

subsection \<open>The background task scheduler\<close>

lemma run_handler_visibility:
  "run_handler ev h (VisibilityChange b) s
     = (if h = OnVisibilityChange then on_visibilitychange s else s)"
  by (cases h) (simp_all add: run_handler_def)

lemma run_handler_navigate:
  "run_handler ev h (RouterNavigate p) s
     = (if h = OnRouterNavigate then on_router_navigate p s else s)"
  by (cases h) (simp_all add: run_handler_def)

lemma foldl_visibility:
  "foldl (\<lambda>s' h. run_handler ev h (VisibilityChange b) s') s hs
     = (on_visibilitychange ^^ count_list hs OnVisibilityChange) s"
proof (induction hs arbitrary: s)
  case Nil
  then show ?case by simp
next
  case (Cons h hs)
  have "foldl (\<lambda>s' h. run_handler ev h (VisibilityChange b) s') s (h # hs)
      = foldl (\<lambda>s' h. run_handler ev h (VisibilityChange b) s')
          (run_handler ev h (VisibilityChange b) s) hs"
    by simp
  also have "\<dots> = (on_visibilitychange ^^ count_list hs OnVisibilityChange)
      (run_handler ev h (VisibilityChange b) s)"
    by (rule Cons.IH)
  also have "\<dots> = (on_visibilitychange ^^ count_list (h # hs) OnVisibilityChange) s"
    by (simp add: run_handler_visibility funpow_swap1)
  finally show ?case .
qed

lemma foldl_navigate:
  "foldl (\<lambda>s' h. run_handler ev h (RouterNavigate p) s') s hs
     = (on_router_navigate p ^^ count_list hs OnRouterNavigate) s"
proof (induction hs arbitrary: s)
  case Nil
  then show ?case by simp
next
  case (Cons h hs)
  have "foldl (\<lambda>s' h. run_handler ev h (RouterNavigate p) s') s (h # hs)
      = foldl (\<lambda>s' h. run_handler ev h (RouterNavigate p) s')
          (run_handler ev h (RouterNavigate p) s) hs"
    by simp
  also have "\<dots> = (on_router_navigate p ^^ count_list hs OnRouterNavigate)
      (run_handler ev h (RouterNavigate p) s)"
    by (rule Cons.IH)
  also have "\<dots> = (on_router_navigate p ^^ count_list (h # hs) OnRouterNavigate) s"
    by (simp add: run_handler_navigate funpow_swap1)
  finally show ?case .
qed

lemma dispatch_visibility:
  "dispatch ev (VisibilityChange b) s
     = (on_visibilitychange ^^ count_list (listeners s) OnVisibilityChange) (s\<lparr>hidden := b\<rparr>)"
  by (simp add: dispatch_def environment_update_def foldl_visibility)

lemma dispatch_navigate:
  "dispatch ev (RouterNavigate p) s
     = (on_router_navigate p ^^ count_list (listeners s) OnRouterNavigate) (s\<lparr>pathname := p\<rparr>)"
  by (simp add: dispatch_def environment_update_def foldl_navigate)

lemma dispatch_auth:
  "dispatch ev (AuthNotify a) s
     = (handleAuthStateChange a ^^ authListeners s) (s\<lparr>authIsAuthenticated := isAuthenticated a\<rparr>)"
  by (simp add: dispatch_def environment_update_def)

lemma on_visibilitychange_fields [simp]:
  "listeners (on_visibilitychange s) = listeners s"
  "hidden (on_visibilitychange s) = hidden s"
  "pathname (on_visibilitychange s) = pathname s"
  "authIsAuthenticated (on_visibilitychange s) = authIsAuthenticated s"
  "authListeners (on_visibilitychange s) = authListeners s"
  "currentUser (on_visibilitychange s) = currentUser s"
  by (simp_all add: on_visibilitychange_def pauseBackgroundTasks_def resume_group_id
      split: option.splits)

lemma on_visibilitychange_polling:
  "polling (on_visibilitychange s)
     = (if hidden s then None
        else (case group_id (pathname s) of Some g \<Rightarrow> Some g | None \<Rightarrow> polling s))"
  by (simp add: on_visibilitychange_def pauseBackgroundTasks_def resume_group_id
      ui_polling_step_def split: option.splits)

lemma on_router_navigate_fields [simp]:
  "listeners (on_router_navigate p s) = listeners s"
  "hidden (on_router_navigate p s) = hidden s"
  "pathname (on_router_navigate p s) = pathname s"
  "authIsAuthenticated (on_router_navigate p s) = authIsAuthenticated s"
  "authListeners (on_router_navigate p s) = authListeners s"
  "currentUser (on_router_navigate p s) = currentUser s"
  "polling (on_router_navigate p s) = polling s"
  by (simp_all add: on_router_navigate_def ui_polling_step_def)

lemma funpow_navigate_fields [simp]:
  "listeners ((on_router_navigate p ^^ n) s) = listeners s"
  "hidden ((on_router_navigate p ^^ n) s) = hidden s"
  "pathname ((on_router_navigate p ^^ n) s) = pathname s"
  "authIsAuthenticated ((on_router_navigate p ^^ n) s) = authIsAuthenticated s"
  "polling ((on_router_navigate p ^^ n) s) = polling s"
  by (induction n) simp_all

lemma handleAuthStateChange_polling:
  "polling (handleAuthStateChange a s) = polling s \<or> polling (handleAuthStateChange a s) = None"
  "isAuthenticated a \<Longrightarrow> polling (handleAuthStateChange a s) = polling s"
  by (simp_all add: handleAuthStateChange_def Let_def onUserLogin_def onUserLogout_def
      cleanupUserData_def trackEvent_def updateGlobalUserInfo_def ui_polling_step_def
      split: option.splits)

lemma funpow_auth_fields [simp]:
  "listeners ((handleAuthStateChange a ^^ n) s) = listeners s"
  "hidden ((handleAuthStateChange a ^^ n) s) = hidden s"
  "pathname ((handleAuthStateChange a ^^ n) s) = pathname s"
  "authIsAuthenticated ((handleAuthStateChange a ^^ n) s) = authIsAuthenticated s"
  by (induction n) simp_all

lemma funpow_auth_polling:
  "polling ((handleAuthStateChange a ^^ n) s) = polling s
     \<or> polling ((handleAuthStateChange a ^^ n) s) = None"
proof (induction n)
  case 0
  then show ?case by simp
next
  case (Suc n)
  then show ?case
    using handleAuthStateChange_polling(1) [of a "(handleAuthStateChange a ^^ n) s"] by auto
qed

lemma funpow_auth_polling_login:
  "isAuthenticated a \<Longrightarrow> polling ((handleAuthStateChange a ^^ n) s) = polling s"
  by (induction n) (simp_all add: handleAuthStateChange_polling(2))

lemma dispatch_visible_while_polling:
  assumes "scheduler_event e" and "visible_while_polling s"
  shows "visible_while_polling (dispatch ev e s)"
proof (cases e)
  case (VisibilityChange b)
  with assms(2) show ?thesis
    by (simp add: visible_while_polling_def dispatch_visibility on_visibilitychange_polling
        split: option.splits)
next
  case (RouterNavigate p)
  with assms(2) show ?thesis
    by (simp add: visible_while_polling_def dispatch_navigate)
next
  case (AuthNotify a)
  with assms(2) show ?thesis
    using funpow_auth_polling [where a = a and n = "authListeners s"
        and s = "s\<lparr>authIsAuthenticated := isAuthenticated a\<rparr>"]
    by (auto simp: visible_while_polling_def dispatch_auth)
qed (use assms(1) in \<open>simp_all add: scheduler_event_def\<close>)

lemma run_events_visible_while_polling:
  assumes "\<forall>e \<in> set es. scheduler_event e" and "visible_while_polling s"
  shows "visible_while_polling (run_events ev es s)"
  using assms unfolding run_events_def
  by (induction es arbitrary: s) (simp_all add: dispatch_visible_while_polling)

lemma init_visible_while_polling:
  assumes "\<not> setup_raises ev"
  shows "visible_while_polling (snd (init ev initial))"
proof -
  have start: "polling initial = None" "\<not> hidden initial" "listeners initial = []"
    "body initial \<noteq> NoBody"
    by (simp_all add: polling_def initial_def)
  obtain r s' where p: "setup_phase ev initial = (r, s')"
    by (cases "setup_phase ev initial")
  have r: "r = None"
    and l: "count_list (listeners s') OnVisibilityChange = 1"
    using setup_phase_ok [OF assms start(4)] p start(3) by simp_all
  have f: "polling s' = None" "\<not> hidden s'"
    using setup_phase_fields(4,5) [of ev initial] p start(1,2) by simp_all
  show ?thesis
    using p r l f startApplication_scheduler_fields [of ev s']
    by (simp add: visible_while_polling_def init_unfold)
qed

text \<open>
  Claim C1, as the code has it. After initialization and any sequence of visibility,
  route and auth events, the polling task runs only while the tab is visible. A
  tab-hidden event stops it. A tab-visible event starts it for the group id of the
  current path when that path is a group path, whether or not the user is
  authenticated, and leaves it as it is otherwise. A route event and a notification of
  an authenticated user leave it as it is.
\<close>

theorem scheduler_follows_visibility:
  assumes "\<not> setup_raises ev" and "\<forall>e \<in> set es. scheduler_event e"
  shows "(polling (run_events ev es (snd (init ev initial))) \<noteq> None
            \<longrightarrow> \<not> hidden (run_events ev es (snd (init ev initial))))
    \<and> polling (dispatch ev (VisibilityChange True) (run_events ev es (snd (init ev initial)))) = None
    \<and> polling (dispatch ev (VisibilityChange False) (run_events ev es (snd (init ev initial))))
        = (case group_id (pathname (run_events ev es (snd (init ev initial)))) of
             Some g \<Rightarrow> Some g
           | None \<Rightarrow> polling (run_events ev es (snd (init ev initial))))
    \<and> polling (dispatch ev (RouterNavigate p) (run_events ev es (snd (init ev initial))))
        = polling (run_events ev es (snd (init ev initial)))
    \<and> (isAuthenticated a \<longrightarrow>
         polling (dispatch ev (AuthNotify a) (run_events ev es (snd (init ev initial))))
           = polling (run_events ev es (snd (init ev initial))))"
proof -
  have inv: "visible_while_polling (run_events ev es (snd (init ev initial)))"
    using run_events_visible_while_polling [OF assms(2) init_visible_while_polling [OF assms(1)]] .
  then have once: "count_list (listeners (run_events ev es (snd (init ev initial)))) OnVisibilityChange = 1"
    by (simp add: visible_while_polling_def)
  show ?thesis
    using inv
    by (auto simp: visible_while_polling_def dispatch_visibility dispatch_navigate dispatch_auth
        on_visibilitychange_polling funpow_auth_polling_login split: option.splits)
qed

lemma ready_wired:
  "count_list (listeners ready) OnVisibilityChange = 1"
  "count_list (listeners ready) OnRouterNavigate = 1"
  "authListeners ready = 1" "polling ready = None" "currentUser ready = None"
  "\<not> authIsAuthenticated ready"
  by (simp_all add: ready_value polling_def ui_polling_step_def)

lemma group_7: "group_id ''/group/7'' = Some ''7''"
  by (simp add: group_id_def startsWith_def index_opt_def)

lemma unauthenticated_group_visit_value:
  "polling unauthenticated_group_visit = Some ''7''
   \<and> \<not> hidden unauthenticated_group_visit
   \<and> pathname unauthenticated_group_visit = ''/group/7''
   \<and> \<not> authIsAuthenticated unauthenticated_group_visit"
  by (simp add: unauthenticated_group_visit_def run_events_def dispatch_visibility
      dispatch_navigate ready_wired on_visibilitychange_polling group_7)

theorem scheduler_follows_visibility_witness:
  "\<not> setup_raises good_env
   \<and> hidden (run_events good_env [RouterNavigate ''/group/42'', VisibilityChange True] ready)
   \<and> polling (run_events good_env [RouterNavigate ''/group/42'', VisibilityChange True] ready) = None
   \<and> polling (dispatch good_env (VisibilityChange False)
        (run_events good_env [RouterNavigate ''/group/42'', VisibilityChange True] ready)) = Some ''42''
   \<and> polling (dispatch good_env (RouterNavigate ''/dashboard'')
        (run_events good_env [RouterNavigate ''/group/42'', VisibilityChange True] ready)) = None"
proof -
  have ok: "\<not> setup_raises good_env"
    by (simp add: setup_raises_def good_env_def)
  have evs: "\<forall>e \<in> set [RouterNavigate ''/group/42'', VisibilityChange True]. scheduler_event e"
    by (simp add: scheduler_event_def)
  have g: "group_id ''/group/42'' = Some ''42''"
    by (simp add: group_id_def startsWith_def index_opt_def)
  have st: "hidden (run_events good_env [RouterNavigate ''/group/42'', VisibilityChange True] ready)
      \<and> pathname (run_events good_env [RouterNavigate ''/group/42'', VisibilityChange True] ready)
          = ''/group/42''
      \<and> polling (run_events good_env [RouterNavigate ''/group/42'', VisibilityChange True] ready) = None"
    by (simp add: run_events_def dispatch_visibility dispatch_navigate ready_wired
        on_visibilitychange_polling)
  show ?thesis
    using scheduler_follows_visibility [OF ok evs, of "''/dashboard''" signed_in] ok st g
    by (simp add: ready_def)
qed

text \<open>
  Claim C1 as stated fails: \<open>resumeBackgroundTasks\<close> does not ask whether the user is
  authenticated. A visitor who is not signed in, on \<open>/group/7\<close>, hides the tab and
  shows it again: polling runs for group 7.
\<close>

theorem unauthenticated_visitor_polls:
  "polling unauthenticated_group_visit = Some ''7''
   \<and> \<not> hidden unauthenticated_group_visit
   \<and> group_id (pathname unauthenticated_group_visit) = Some ''7''
   \<and> \<not> authIsAuthenticated unauthenticated_group_visit
   \<and> \<not> spec_polling_invariant unauthenticated_group_visit"
  using unauthenticated_group_visit_value
  by (simp add: spec_polling_invariant_def group_7)

subsection \<open>Logging out while polling\<close>

lemma polling_group_7_value:
  "currentUser polling_group_7 = Some alice
   \<and> polling polling_group_7 = Some ''7''
   \<and> pathname polling_group_7 = ''/group/7''
   \<and> authListeners polling_group_7 = 1
   \<and> logout_count polling_group_7 = 0"
proof -
  have a: "dispatch good_env (AuthNotify signed_in) ready
      = onUserLogin alice (ready\<lparr>authIsAuthenticated := True, currentUser := Some alice\<rparr>)"
    by (simp add: dispatch_auth ready_wired handleAuthStateChange_def signed_in_def)
  have l: "logout_count ready = 0"
    by (simp add: ready_value logout_count_def)
  show ?thesis
    using l
    by (simp add: polling_group_7_def run_events_def a dispatch_visibility
      dispatch_navigate ready_wired on_visibilitychange_polling group_7 onUserLogin_def
      updateGlobalUserInfo_def trackEvent_def ui_polling_step_def on_visibilitychange_def
      pauseBackgroundTasks_def resume_group_id on_router_navigate_def)
qed

text \<open>
  Claim C3, evaluated on the code. A signed-in user polls the chat of group 7 and the
  sign-out notification arrives: the cached user is cleared and nothing else happens.
  \<open>onUserLogout\<close> is not called, so no \<open>user_logout\<close> is tracked, \<open>ui.stopChatPolling\<close> is
  not invoked and polling for group 7 goes on.
\<close>

theorem logout_leaves_polling_running:
  "currentUser polling_group_7 = Some alice
   \<and> polling polling_group_7 = Some ''7''
   \<and> handleAuthStateChange signed_out polling_group_7 = polling_group_7\<lparr>currentUser := None\<rparr>
   \<and> dispatch good_env (AuthNotify signed_out) polling_group_7
       = polling_group_7\<lparr>currentUser := None, authIsAuthenticated := False\<rparr>
   \<and> polling (dispatch good_env (AuthNotify signed_out) polling_group_7) = Some ''7''
   \<and> logout_count (dispatch good_env (AuthNotify signed_out) polling_group_7) = 0"
proof -
  have h: "handleAuthStateChange signed_out s = s\<lparr>currentUser := None\<rparr>" for s
    by (simp add: handleAuthStateChange_def signed_out_def)
  have out: "isAuthenticated signed_out = False"
    by (simp add: signed_out_def)
  have d: "dispatch good_env (AuthNotify signed_out) polling_group_7
       = polling_group_7\<lparr>currentUser := None, authIsAuthenticated := False\<rparr>"
    using polling_group_7_value
    by (simp add: dispatch_auth h out)
  show ?thesis
    using polling_group_7_value by (simp add: h d logout_count_def)
qed

end
